theory Spec2Isabelle
  imports Complex_Main "HOL-Library.List_Lexorder" "HOL-Library.Char_ord"
begin

section \<open>Python values\<close>

text \<open>
  The values that travel through \<^verbatim>\<open>app.py\<close>: what \<^verbatim>\<open>request.get_json()\<close> hands to a
  handler, what \<^verbatim>\<open>get_stock_price\<close> puts into its result dictionary and what
  \<^verbatim>\<open>jsonify\<close> serialises. Floating-point numbers are only passed along by the program,
  so their type \<open>'f\<close> is left open. A dictionary is an association list in insertion
  order with pairwise distinct keys; strings are ASCII.
\<close>

datatype 'f py =
    PyNone
  | PyBool bool
  | PyInt int
  | PyFloat 'f
  | PyStr string
  | PyList "'f py list"
  | PyDict "(string \<times> 'f py) list"

type_synonym 'f dict = "(string \<times> 'f py) list"

text \<open>
  The exceptions the program itself can raise, all of them subclasses of \<^verbatim>\<open>Exception\<close>;
  \<open>str_exn\<close> is \<^verbatim>\<open>str(e)\<close>. \<open>ConversionError\<close> stands for the \<^verbatim>\<open>ValueError\<close> or \<^verbatim>\<open>TypeError\<close>
  of a failed \<^verbatim>\<open>float(...)\<close> or \<^verbatim>\<open>int(...)\<close>.
\<close>

datatype exn =
    AttributeError string
  | KeyError string
  | ConversionError string
  | UnboundLocalError string

definition quoted :: "string \<Rightarrow> string" where
  "quoted s = [CHR 0x27] @ s @ [CHR 0x27]"

fun str_exn :: "exn \<Rightarrow> string" where
  "str_exn (AttributeError m) = m"
| "str_exn (KeyError k) = quoted k"
| "str_exn (ConversionError m) = m"
| "str_exn (UnboundLocalError m) = m"

fun type_name :: "'f py \<Rightarrow> string" where
  "type_name PyNone = ''NoneType''"
| "type_name (PyBool _) = ''bool''"
| "type_name (PyInt _) = ''int''"
| "type_name (PyFloat _) = ''float''"
| "type_name (PyStr _) = ''str''"
| "type_name (PyList _) = ''list''"
| "type_name (PyDict _) = ''dict''"

definition no_attribute :: "'f py \<Rightarrow> string \<Rightarrow> exn" where
  "no_attribute v a =
     AttributeError (quoted (type_name v) @ '' object has no attribute '' @ quoted a)"

text \<open>\<^verbatim>\<open>str.upper()\<close> on ASCII text.\<close>

definition upper_char :: "char \<Rightarrow> char" where
  "upper_char c =
     (case map_of (zip ''abcdefghijklmnopqrstuvwxyz'' ''ABCDEFGHIJKLMNOPQRSTUVWXYZ'') c of
        Some u \<Rightarrow> u
      | None \<Rightarrow> c)"

definition upper :: "string \<Rightarrow> string" where
  "upper s = map upper_char s"

text \<open>\<^verbatim>\<open>symbol.upper()\<close>: only a \<^verbatim>\<open>str\<close> has the method.\<close>

fun py_upper :: "'f py \<Rightarrow> exn + string" where
  "py_upper (PyStr s) = Inr (upper s)"
| "py_upper v = Inl (no_attribute v ''upper'')"

text \<open>\<^verbatim>\<open>data.get(key, default)\<close>: only a \<^verbatim>\<open>dict\<close> has the method.\<close>

fun py_get :: "'f py \<Rightarrow> string \<Rightarrow> 'f py \<Rightarrow> exn + 'f py" where
  "py_get (PyDict kvs) k dflt = Inr (case map_of kvs k of None \<Rightarrow> dflt | Some v \<Rightarrow> v)"
| "py_get v k dflt = Inl (no_attribute v ''get'')"

text \<open>Truth value of an object, as \<^verbatim>\<open>not symbols\<close> tests it.\<close>

fun truthy :: "('f::zero) py \<Rightarrow> bool" where
  "truthy PyNone = False"
| "truthy (PyBool b) = b"
| "truthy (PyInt i) = (i \<noteq> 0)"
| "truthy (PyFloat x) = (x \<noteq> 0)"
| "truthy (PyStr s) = (s \<noteq> [])"
| "truthy (PyList xs) = (xs \<noteq> [])"
| "truthy (PyDict kvs) = (kvs \<noteq> [])"

fun isinstance_list :: "'f py \<Rightarrow> bool" where
  "isinstance_list (PyList _) = True"
| "isinstance_list _ = False"

text \<open>\<^verbatim>\<open>key in d\<close> for a dictionary.\<close>

definition has_key :: "string \<Rightarrow> 'f dict \<Rightarrow> bool" where
  "has_key k d = (map_of d k \<noteq> None)"

section \<open>The upstream client and the process-wide state\<close>

text \<open>
  A cell of a price bar is an object of the upstream library. The program applies
  \<^verbatim>\<open>float\<close>, \<^verbatim>\<open>int\<close> and \<^verbatim>\<open>str\<close> to it and nothing else, so a cell is what those three
  give: \<open>Inl m\<close> is a conversion that raises with message \<open>m\<close>.
\<close>

record 'f cell =
  as_float :: "string + 'f"
  as_int :: "string + int"
  as_str :: string

text \<open>
  A bar is one row of the returned frame (\<^verbatim>\<open>df.iloc[-1]\<close> is a labelled series): a map
  from column labels to cells. A frame is the list of its rows in the order the
  source returned them; every frame has a column, so \<^verbatim>\<open>df.empty\<close> is "no rows".
\<close>

type_synonym 'f bar = "string \<rightharpoonup> 'f cell"

text \<open>
  One pass through the body of the inner \<^verbatim>\<open>try\<close> (lines 41 to 45) for a source:
  \<^verbatim>\<open>Vnstock().stock(...)\<close> raises, or \<^verbatim>\<open>stock.quote.history(...)\<close> raises, or it returns
  \<^verbatim>\<open>None\<close> or a frame. The string of a raise is \<^verbatim>\<open>str(e)\<close>.
\<close>

datatype 'f attempt =
    Stock_raises string
  | History_raises string
  | History_returns "'f bar list option"

text \<open>
  The module-level state, fixed at start-up, and the outside world \<open>'w\<close> the process
  talks to. \<open>Vnstock\<close> is \<open>None\<close> when the import failed; otherwise it answers a query
  (upper-cased symbol, source, start date, end date) in a world and leaves a new world.
  \<open>now\<close> is \<^verbatim>\<open>datetime.now().strftime('%Y-%m-%d')\<close> and \<open>ago n\<close> the same for
  \<^verbatim>\<open>datetime.now() - timedelta(days=n)\<close>, both read at the start of an attempt.
\<close>

type_synonym ('w, 'f) client =
  "string \<Rightarrow> string \<Rightarrow> string \<Rightarrow> string \<Rightarrow> 'w \<Rightarrow> 'f attempt \<times> 'w"

record ('w, 'f) config =
  API_KEY :: "string option"
  Vnstock :: "('w, 'f) client option"
  now :: "'w \<Rightarrow> string"
  ago :: "nat \<Rightarrow> 'w \<Rightarrow> string"

record 'f request =
  headers :: "string \<rightharpoonup> string"
  json :: "'f py"

section \<open>Authorization gate\<close>

definition verify_api_key :: "('w, 'f) config \<Rightarrow> 'f request \<Rightarrow> bool" where
  "verify_api_key cfg req =
     (case API_KEY cfg of
        None \<Rightarrow> True
      | Some key \<Rightarrow>
          if key \<noteq> [] then
            (if headers req ''X-API-Key'' \<noteq> Some key then False else True)
          else True)"

section \<open>Quote fetcher\<close>

definition sources :: "string list" where
  "sources = [''TCBS'', ''VND'', ''MSN'', ''VCI'']"

text \<open>The local variables that live across the loop; \<open>None\<close> in \<open>df\<close> and \<open>end_date\<close> is "not bound".\<close>

record 'f locals =
  df :: "'f bar list option option"
  end_date :: "string option"
  last_error :: "string option"

definition init_locals :: "'f locals" where
  "init_locals = \<lparr>df = None, end_date = None, last_error = None\<rparr>"

text \<open>The query a source receives for an upper-cased symbol.\<close>

definition query ::
  "('w, 'f) config \<Rightarrow> ('w, 'f) client \<Rightarrow>
     string \<Rightarrow> string \<Rightarrow> 'w \<Rightarrow> 'f attempt \<times> 'w" where
  "query cfg vn S source w = vn S source (ago cfg 5 w) (now cfg w) w"

text \<open>\<^verbatim>\<open>df is not None and not df.empty\<close>\<close>

fun has_data :: "'f bar list option \<Rightarrow> bool" where
  "has_data None = False"
| "has_data (Some rows) = (rows \<noteq> [])"

text \<open>
  The \<^verbatim>\<open>for source in sources\<close> loop (lines 39 to 52), from the local variables and
  the world before it to those after it; \<^verbatim>\<open>break\<close> is the branch without a recursive
  call. \<^verbatim>\<open>symbol.upper()\<close> is an argument of the first call of the body, so when it
  raises no query reaches the source.
\<close>

fun try_sources ::
  "('w, 'f) config \<Rightarrow> ('w, 'f) client \<Rightarrow>
     'f py \<Rightarrow> string list \<Rightarrow> 'f locals \<Rightarrow> 'w \<Rightarrow> 'f locals \<times> 'w" where
  "try_sources cfg vn symbol [] l w = (l, w)"
| "try_sources cfg vn symbol (source # rest) l w =
     (case py_upper symbol of
        Inl e \<Rightarrow> try_sources cfg vn symbol rest (l\<lparr>last_error := Some (str_exn e)\<rparr>) w
      | Inr S \<Rightarrow>
          (case query cfg vn S source w of
             (Stock_raises m, w') \<Rightarrow>
               try_sources cfg vn symbol rest (l\<lparr>last_error := Some m\<rparr>) w'
           | (History_raises m, w') \<Rightarrow>
               try_sources cfg vn symbol rest
                 (l\<lparr>end_date := Some (now cfg w), last_error := Some m\<rparr>) w'
           | (History_returns d, w') \<Rightarrow>
               (let l' = l\<lparr>df := Some d, end_date := Some (now cfg w)\<rparr>
                in if has_data d then (l', w') else try_sources cfg vn symbol rest l' w')))"

text \<open>\<^verbatim>\<open>{"error": msg, "symbol": symbol.upper()}\<close>\<close>

definition error_record :: "string \<Rightarrow> 'f py \<Rightarrow> exn + 'f dict" where
  "error_record msg symbol =
     (case py_upper symbol of
        Inl e \<Rightarrow> Inl e
      | Inr S \<Rightarrow> Inr [(''error'', PyStr msg), (''symbol'', PyStr S)])"

text \<open>
  Line 56: \<^verbatim>\<open>{"error": f"No data available for {symbol}. Last error: {last_error}",
  "symbol": symbol.upper()}\<close>. Formatting a value never raises; for a symbol that is not
  a \<^verbatim>\<open>str\<close> the formatted text is dropped when \<^verbatim>\<open>symbol.upper()\<close> raises.
\<close>

definition no_data_message :: "string \<Rightarrow> string option \<Rightarrow> string" where
  "no_data_message s err =
     ''No data available for '' @ s @ ''. Last error: ''
       @ (case err of None \<Rightarrow> ''None'' | Some m \<Rightarrow> m)"

definition no_data_record :: "'f py \<Rightarrow> string option \<Rightarrow> exn + 'f dict" where
  "no_data_record symbol err =
     (case symbol of
        PyStr s \<Rightarrow> error_record (no_data_message s err) symbol
      | _ \<Rightarrow> Inl (no_attribute symbol ''upper''))"

text \<open>\<^verbatim>\<open>float(latest[k])\<close>, \<^verbatim>\<open>float(latest[k]) if k in latest else None\<close> and the like.\<close>

definition float_of :: "'f bar \<Rightarrow> string \<Rightarrow> exn + 'f py" where
  "float_of latest k =
     (case latest k of
        None \<Rightarrow> Inl (KeyError k)
      | Some c \<Rightarrow> (case as_float c of Inl m \<Rightarrow> Inl (ConversionError m) | Inr x \<Rightarrow> Inr (PyFloat x)))"

definition float_if_in :: "'f bar \<Rightarrow> string \<Rightarrow> exn + 'f py" where
  "float_if_in latest k = (if latest k \<noteq> None then float_of latest k else Inr PyNone)"

definition int_if_in :: "'f bar \<Rightarrow> string \<Rightarrow> exn + 'f py" where
  "int_if_in latest k =
     (case latest k of
        None \<Rightarrow> Inr PyNone
      | Some c \<Rightarrow> (case as_int c of Inl m \<Rightarrow> Inl (ConversionError m) | Inr i \<Rightarrow> Inr (PyInt i)))"

definition date_of :: "'f bar \<Rightarrow> string option \<Rightarrow> exn + 'f py" where
  "date_of latest ed =
     (case latest ''time'' of
        Some c \<Rightarrow> Inr (PyStr (as_str c))
      | None \<Rightarrow>
          (case ed of
             None \<Rightarrow> Inl (UnboundLocalError ''end_date'')
           | Some d \<Rightarrow> Inr (PyStr d)))"

text \<open>
  Lines 59 to 70: the quote built from the last row \<open>latest\<close>; the price first, then the
  entries of the dictionary in the order they are written.
\<close>

definition build_quote :: "'f py \<Rightarrow> 'f bar \<Rightarrow> string option \<Rightarrow> exn + 'f dict" where
  "build_quote symbol latest ed =
     (case float_of latest ''close'' of Inl e \<Rightarrow> Inl e | Inr price \<Rightarrow>
      case py_upper symbol of Inl e \<Rightarrow> Inl e | Inr S \<Rightarrow>
      case date_of latest ed of Inl e \<Rightarrow> Inl e | Inr date \<Rightarrow>
      case float_if_in latest ''open'' of Inl e \<Rightarrow> Inl e | Inr op \<Rightarrow>
      case float_if_in latest ''high'' of Inl e \<Rightarrow> Inl e | Inr hi \<Rightarrow>
      case float_if_in latest ''low'' of Inl e \<Rightarrow> Inl e | Inr lo \<Rightarrow>
      case int_if_in latest ''volume'' of Inl e \<Rightarrow> Inl e | Inr vol \<Rightarrow>
        Inr [(''symbol'', PyStr S), (''price'', price), (''date'', date),
             (''source'', PyStr ''vnstock3-api''), (''open'', op), (''high'', hi),
             (''low'', lo), (''volume'', vol)])"

text \<open>Lines 32 to 70, the body of the outer \<^verbatim>\<open>try\<close>.\<close>

definition fetch_body :: "('w, 'f) config \<Rightarrow> 'w \<Rightarrow> 'f py \<Rightarrow> (exn + 'f dict) \<times> 'w" where
  "fetch_body cfg w symbol =
     (case Vnstock cfg of
        None \<Rightarrow> (error_record ''vnstock not installed'' symbol, w)
      | Some vn \<Rightarrow>
          (case try_sources cfg vn symbol sources init_locals w of
             (l, w') \<Rightarrow>
               (case df l of
                  None \<Rightarrow> (no_data_record symbol (last_error l), w')
                | Some None \<Rightarrow> (no_data_record symbol (last_error l), w')
                | Some (Some rows) \<Rightarrow>
                    if rows = [] then
                      (no_data_record symbol (last_error l), w')
                    else (build_quote symbol (last rows) (end_date l), w'))))"

text \<open>
  \<^verbatim>\<open>get_stock_price\<close>: the body under the outer handler of lines 71 and 72, which builds
  its own dictionary with \<^verbatim>\<open>symbol.upper()\<close>. \<open>Inl\<close> is an exception that leaves the
  function.
\<close>

definition get_stock_price :: "('w, 'f) config \<Rightarrow> 'w \<Rightarrow> 'f py \<Rightarrow> (exn + 'f dict) \<times> 'w" where
  "get_stock_price cfg w symbol =
     (case fetch_body cfg w symbol of
        (Inr result, w') \<Rightarrow> (Inr result, w')
      | (Inl e, w') \<Rightarrow> (error_record (str_exn e) symbol, w'))"

section \<open>Routes\<close>

text \<open>A response is the value given to \<^verbatim>\<open>jsonify\<close> and the status code.\<close>

type_synonym 'f response = "'f py \<times> nat"

definition get_stock ::
  "('w, 'f) config \<Rightarrow> 'f request \<Rightarrow> 'w \<Rightarrow> string \<Rightarrow> (exn + 'f response) \<times> 'w" where
  "get_stock cfg req w symbol =
     (if \<not> verify_api_key cfg req then (Inr (PyDict [(''error'', PyStr ''Unauthorized'')], 401), w)
      else
        (case get_stock_price cfg w (PyStr symbol) of
           (Inl e, w') \<Rightarrow> (Inl e, w')
         | (Inr result, w') \<Rightarrow>
             if has_key ''error'' result then (Inr (PyDict result, 404), w')
             else (Inr (PyDict result, 200), w')))"

text \<open>The loop of lines 103 to 106; an exception leaving a fetch ends it.\<close>

fun fetch_each ::
  "('w, 'f) config \<Rightarrow> 'f py list \<Rightarrow> 'f py list \<Rightarrow> 'w \<Rightarrow> (exn + 'f py list) \<times> 'w" where
  "fetch_each cfg [] results w = (Inr results, w)"
| "fetch_each cfg (symbol # rest) results w =
     (case get_stock_price cfg w symbol of
        (Inl e, w') \<Rightarrow> (Inl e, w')
      | (Inr result, w') \<Rightarrow> fetch_each cfg rest (results @ [PyDict result]) w')"

text \<open>The items \<^verbatim>\<open>for symbol in symbols\<close> visits; the loop is reached for a list only.\<close>

fun list_items :: "'f py \<Rightarrow> 'f py list" where
  "list_items (PyList xs) = xs"
| "list_items _ = []"

definition get_stocks_batch ::
  "('w, 'f::zero) config \<Rightarrow> 'f request \<Rightarrow> 'w \<Rightarrow> (exn + 'f response) \<times> 'w" where
  "get_stocks_batch cfg req w =
     (if \<not> verify_api_key cfg req then (Inr (PyDict [(''error'', PyStr ''Unauthorized'')], 401), w)
      else
        (case py_get (json req) ''symbols'' (PyList []) of
           Inl e \<Rightarrow> (Inl e, w)
         | Inr symbols \<Rightarrow>
             if \<not> truthy symbols \<or> \<not> isinstance_list symbols then
               (Inr (PyDict [(''error'', PyStr ''symbols must be a non-empty array'')], 400), w)
             else
               (case fetch_each cfg (list_items symbols) [] w of
                  (Inl e, w') \<Rightarrow> (Inl e, w')
                | (Inr results, w') \<Rightarrow>
                    (Inr (PyDict [(''results'', PyList results),
                                  (''count'', PyInt (int (length results)))], 200), w'))))"

section \<open>Notions used to state the properties\<close>

text \<open>
  What the sources answer when they are asked one after the other for an upper-cased
  symbol, each in the world the one before it left, and the world after the last of
  them. Both follow the upstream client only, not the loop of the program.
\<close>

fun outcomes ::
  "('w, 'f) config \<Rightarrow> ('w, 'f) client \<Rightarrow>
     string \<Rightarrow> string list \<Rightarrow> 'w \<Rightarrow> 'f attempt list" where
  "outcomes cfg vn S [] w = []"
| "outcomes cfg vn S (source # rest) w =
     fst (query cfg vn S source w) # outcomes cfg vn S rest (snd (query cfg vn S source w))"

fun world_after ::
  "('w, 'f) config \<Rightarrow> ('w, 'f) client \<Rightarrow>
     string \<Rightarrow> string list \<Rightarrow> 'w \<Rightarrow> 'w" where
  "world_after cfg vn S [] w = w"
| "world_after cfg vn S (source # rest) w =
     world_after cfg vn S rest (snd (query cfg vn S source w))"

text \<open>A source fails when it raises or returns \<^verbatim>\<open>None\<close> or a frame without rows.\<close>

fun fails :: "'f attempt \<Rightarrow> bool" where
  "fails (History_returns d) = (\<not> has_data d)"
| "fails _ = True"

fun raised :: "'f attempt \<Rightarrow> string option" where
  "raised (Stock_raises m) = Some m"
| "raised (History_raises m) = Some m"
| "raised (History_returns d) = None"

text \<open>The text of the last error raised by any of a list of attempts, if one raised.\<close>

definition last_raised :: "'f attempt list \<Rightarrow> string option" where
  "last_raised outs =
     (case List.map_filter raised outs of [] \<Rightarrow> None | m # ms \<Rightarrow> Some (last (m # ms)))"

text \<open>The loop keeps a frame with rows in \<open>df\<close> only by leaving at once.\<close>

definition usable :: "'f locals \<Rightarrow> bool" where
  "usable l = (case df l of None \<Rightarrow> False | Some d \<Rightarrow> has_data d)"

text \<open>
  An optional field of a quote: \<^verbatim>\<open>None\<close> (JSON \<^verbatim>\<open>null\<close>) when the bar has no such column.
\<close>

fun optional_float :: "'f option \<Rightarrow> 'f py" where
  "optional_float None = PyNone"
| "optional_float (Some x) = PyFloat x"

fun optional_int :: "int option \<Rightarrow> 'f py" where
  "optional_int None = PyNone"
| "optional_int (Some i) = PyInt i"

text \<open>The two shapes of a fetch result (section 3 of the specification).\<close>

fun is_ErrorResult :: "'f dict \<Rightarrow> bool" where
  "is_ErrorResult [(k1, PyStr m), (k2, PyStr S)] = (k1 = ''error'' \<and> k2 = ''symbol'')"
| "is_ErrorResult _ = False"

definition is_Quote :: "'f dict \<Rightarrow> bool" where
  "is_Quote d =
     (map fst d = [''symbol'', ''price'', ''date'', ''source'', ''open'', ''high'', ''low'',
                   ''volume''])"

text \<open>
  Chronology. \<open>day\<close> dates a bar in some linear order of time. A frame is oldest first
  when the dates of its rows rise strictly, as daily bars do, and a bar of a frame is
  its chronologically last one when no bar of the frame is dated later.
\<close>

definition oldest_first :: "('f bar \<Rightarrow> 't::linorder) \<Rightarrow> 'f bar list \<Rightarrow> bool" where
  "oldest_first day rows = sorted_wrt (<) (map day rows)"

definition chronologically_last ::
  "('f bar \<Rightarrow> 't::linorder) \<Rightarrow> 'f bar list \<Rightarrow> 'f bar \<Rightarrow> bool" where
  "chronologically_last day rows b = (b \<in> set rows \<and> (\<forall>b' \<in> set rows. day b' \<le> day b))"

text \<open>
  \<^verbatim>\<open>str(bar['time'])\<close>, the empty text for a bar without the column. ISO timestamps
  are in order of time when their texts are in lexicographic order.
\<close>

definition time_text :: "'f bar \<Rightarrow> string" where
  "time_text b = (case b ''time'' of None \<Rightarrow> [] | Some c \<Rightarrow> as_str c)"

text \<open>The world in which the \<open>i\<close>-th symbol of a batch is fetched.\<close>

definition world_before :: "('w, 'f) config \<Rightarrow> 'f py list \<Rightarrow> 'w \<Rightarrow> nat \<Rightarrow> 'w" where
  "world_before cfg syms w i =
     fold (\<lambda>symbol w'. snd (get_stock_price cfg w' symbol)) (take i syms) w"

section \<open>A concrete upstream\<close>

text \<open>
  A world that is the log of the queries made so far, and a client that answers by
  symbol and source: for VNM the first source is blocked and the second has two bars;
  for FPT the frame has no \<^verbatim>\<open>close\<close> column; for HPG one source raises, two have nothing
  and one times out; for MWG the frame has the newest bar first; for any other symbol
  every source returns \<^verbatim>\<open>None\<close>.
\<close>

type_synonym log = "(string \<times> string) list"

definition number :: "real \<Rightarrow> int \<Rightarrow> string \<Rightarrow> real cell" where
  "number x i t = \<lparr>as_float = Inr x, as_int = Inr i, as_str = t\<rparr>"

definition timestamp :: "string \<Rightarrow> real cell" where
  "timestamp t =
     \<lparr>as_float = Inl ''float() argument must be a string or a real number'',
      as_int = Inl ''int() argument must be a string or a real number'',
      as_str = t\<rparr>"

definition older_bar :: "real bar" where
  "older_bar =
     [''time'' \<mapsto> timestamp ''2024-05-02'', ''open'' \<mapsto> number 65 65 ''65.0'',
      ''close'' \<mapsto> number 66 66 ''66.0'', ''volume'' \<mapsto> number 900 900 ''900'']"

definition latest_bar :: "real bar" where
  "latest_bar =
     [''time'' \<mapsto> timestamp ''2024-05-03'', ''open'' \<mapsto> number 66 66 ''66.0'',
      ''high'' \<mapsto> number 68 68 ''68.0'', ''close'' \<mapsto> number 67 67 ''67.0'',
      ''volume'' \<mapsto> number 1200 1200 ''1200'']"

definition bar_without_close :: "real bar" where
  "bar_without_close = [''time'' \<mapsto> timestamp ''2024-05-03'', ''open'' \<mapsto> number 66 66 ''66.0'']"

definition demo_vn :: "(log, real) client" where
  "demo_vn S source start end w =
     ((if S = ''VNM'' then
         (if source = ''TCBS'' then Stock_raises ''403 Forbidden''
          else if source = ''VND'' then History_returns (Some [older_bar, latest_bar])
          else History_raises ''unreachable'')
       else if S = ''FPT'' then History_returns (Some [bar_without_close])
       else if S = ''HPG'' then
         (if source = ''TCBS'' then Stock_raises ''403 Forbidden''
          else if source = ''VND'' then History_returns (Some [])
          else if source = ''MSN'' then History_raises ''timed out''
          else History_returns None)
       else if S = ''MWG'' then History_returns (Some [latest_bar, older_bar])
       else History_returns None),
      w @ [(S, source)])"

definition demo_cfg :: "string option \<Rightarrow> (log, real) config" where
  "demo_cfg key =
     \<lparr>API_KEY = key, Vnstock = Some demo_vn,
      now = (\<lambda>w. ''2024-05-06''), ago = (\<lambda>n w. ''2024-05-01'')\<rparr>"

definition no_vnstock_cfg :: "(log, real) config" where
  "no_vnstock_cfg =
     \<lparr>API_KEY = None, Vnstock = None,
      now = (\<lambda>w. ''2024-05-06''), ago = (\<lambda>n w. ''2024-05-01'')\<rparr>"

definition demo_request :: "string option \<Rightarrow> real py \<Rightarrow> real request" where
  "demo_request key body =
     \<lparr>headers = (case key of None \<Rightarrow> Map.empty | Some k \<Rightarrow> [''X-API-Key'' \<mapsto> k]),
      json = body\<rparr>"

section \<open>Lemmas\<close>

subsection \<open>The loop over the sources\<close>

lemma last_raised_Nil: "last_raised [] = None"
  by (simp add: last_raised_def map_filter_simps)

lemma last_raised_Cons:
  "last_raised (a # outs) = (case last_raised outs of None \<Rightarrow> raised a | Some m \<Rightarrow> Some m)"
  by (cases "raised a"; cases "List.map_filter raised outs")
     (simp_all add: last_raised_def map_filter_simps)

lemma try_sources_failing_prefix:
  "\<forall>a \<in> set (outcomes cfg vn (upper s) pre w). fails a \<Longrightarrow> \<not> usable l \<Longrightarrow>
   \<exists>l'. try_sources cfg vn (PyStr s) (pre @ rest) l w =
           try_sources cfg vn (PyStr s) rest l' (world_after cfg vn (upper s) pre w)
       \<and> \<not> usable l'
       \<and> last_error l' =
           (case last_raised (outcomes cfg vn (upper s) pre w) of
              None \<Rightarrow> last_error l | Some m \<Rightarrow> Some m)"
proof (induction pre arbitrary: l w)
  case Nil
  then show ?case by (auto simp: last_raised_Nil)
next
  case (Cons source pre)
  obtain a w1 where q: "query cfg vn (upper s) source w = (a, w1)"
    by (cases "query cfg vn (upper s) source w")
  from Cons.prems q have fa: "fails a"
    and rest_fail: "\<forall>a \<in> set (outcomes cfg vn (upper s) pre w1). fails a"
    by simp_all
  define l1 where "l1 =
    (case a of
       Stock_raises m \<Rightarrow> l\<lparr>last_error := Some m\<rparr>
     | History_raises m \<Rightarrow> l\<lparr>end_date := Some (now cfg w), last_error := Some m\<rparr>
     | History_returns d \<Rightarrow> l\<lparr>df := Some d, end_date := Some (now cfg w)\<rparr>)"
  have step: "try_sources cfg vn (PyStr s) ((source # pre) @ rest) l w =
              try_sources cfg vn (PyStr s) (pre @ rest) l1 w1"
    using q fa by (cases a) (simp_all add: l1_def)
  have nu: "\<not> usable l1"
    using Cons.prems(2) fa by (cases a) (simp_all add: l1_def usable_def)
  have le: "last_error l1 = (case raised a of None \<Rightarrow> last_error l | Some m \<Rightarrow> Some m)"
    by (cases a) (simp_all add: l1_def)
  from Cons.IH [OF rest_fail nu] obtain l' where
    l': "try_sources cfg vn (PyStr s) (pre @ rest) l1 w1 =
           try_sources cfg vn (PyStr s) rest l' (world_after cfg vn (upper s) pre w1)"
       "\<not> usable l'"
       "last_error l' =
           (case last_raised (outcomes cfg vn (upper s) pre w1) of
              None \<Rightarrow> last_error l1 | Some m \<Rightarrow> Some m)"
    by blast
  show ?case
    using step l' le q
    by (intro exI [of _ l']) (simp add: last_raised_Cons split: option.splits)
qed

lemma try_sources_all_fail:
  assumes "\<forall>a \<in> set (outcomes cfg vn (upper s) srcs w). fails a" and "\<not> usable l"
  shows "\<exists>l'. try_sources cfg vn (PyStr s) srcs l w = (l', world_after cfg vn (upper s) srcs w)
       \<and> \<not> usable l'
       \<and> last_error l' =
           (case last_raised (outcomes cfg vn (upper s) srcs w) of
              None \<Rightarrow> last_error l | Some m \<Rightarrow> Some m)"
  using try_sources_failing_prefix [OF assms, of "[]"] by simp

lemma try_sources_first_success:
  assumes "\<forall>a \<in> set (outcomes cfg vn (upper s) pre w). fails a" and "\<not> usable l"
    and "query cfg vn (upper s) source (world_after cfg vn (upper s) pre w)
           = (History_returns (Some rows), w')"
    and "rows \<noteq> []"
  shows "\<exists>l'. try_sources cfg vn (PyStr s) (pre @ source # post) l w = (l', w')
       \<and> df l' = Some (Some rows)
       \<and> end_date l' = Some (now cfg (world_after cfg vn (upper s) pre w))"
proof -
  from try_sources_failing_prefix [OF assms(1,2), of "source # post"] obtain l1 where
    "try_sources cfg vn (PyStr s) (pre @ source # post) l w =
       try_sources cfg vn (PyStr s) (source # post) l1 (world_after cfg vn (upper s) pre w)"
    by blast
  then show ?thesis using assms(3,4) by simp
qed

lemma not_usable_init: "\<not> usable init_locals"
  by (simp add: usable_def init_locals_def)

lemma error_record_str:
  "error_record msg (PyStr s) = Inr [(''error'', PyStr msg), (''symbol'', PyStr (upper s))]"
  by (simp add: error_record_def)

lemma no_data_record_str:
  "no_data_record (PyStr s) err =
     Inr [(''error'', PyStr (no_data_message s err)), (''symbol'', PyStr (upper s))]"
  by (simp add: no_data_record_def error_record_def)

lemma fetch_body_no_data:
  assumes "Vnstock cfg = Some vn"
    and "\<forall>a \<in> set (outcomes cfg vn (upper s) sources w). fails a"
  shows "fetch_body cfg w (PyStr s) =
     (Inr [(''error'', PyStr (no_data_message s (last_raised (outcomes cfg vn (upper s) sources w)))),
           (''symbol'', PyStr (upper s))],
      world_after cfg vn (upper s) sources w)"
proof -
  from try_sources_all_fail [OF assms(2) not_usable_init] obtain l' where
    l': "try_sources cfg vn (PyStr s) sources init_locals w =
           (l', world_after cfg vn (upper s) sources w)"
      "\<not> usable l'"
      "last_error l' = last_raised (outcomes cfg vn (upper s) sources w)"
    by (auto simp: init_locals_def split: option.splits)
  show ?thesis
    using assms(1) l'
    by (auto simp: fetch_body_def usable_def no_data_record_str split: option.splits)
qed

lemma fetch_body_first_success:
  assumes "Vnstock cfg = Some vn"
    and "sources = pre @ source # post"
    and "\<forall>a \<in> set (outcomes cfg vn (upper s) pre w). fails a"
    and "query cfg vn (upper s) source (world_after cfg vn (upper s) pre w)
           = (History_returns (Some rows), w')"
    and "rows \<noteq> []"
  shows "fetch_body cfg w (PyStr s) =
     (build_quote (PyStr s) (last rows) (Some (now cfg (world_after cfg vn (upper s) pre w))), w')"
proof -
  from try_sources_first_success [OF assms(3) not_usable_init assms(4,5), of post] obtain l' where
    "try_sources cfg vn (PyStr s) (pre @ source # post) init_locals w = (l', w')"
    "df l' = Some (Some rows)"
    "end_date l' = Some (now cfg (world_after cfg vn (upper s) pre w))"
    by blast
  then show ?thesis
    using assms(1,2,5) by (simp add: fetch_body_def)
qed


subsection \<open>A symbol that is a string\<close>

lemma get_stock_price_handler:
  "get_stock_price cfg w (PyStr s) =
     (case fetch_body cfg w (PyStr s) of
        (Inr result, w') \<Rightarrow> (Inr result, w')
      | (Inl e, w') \<Rightarrow>
          (Inr [(''error'', PyStr (str_exn e)), (''symbol'', PyStr (upper s))], w'))"
  by (simp add: get_stock_price_def error_record_str split: prod.splits sum.splits)

lemma get_stock_price_returns: "\<exists>d. fst (get_stock_price cfg w (PyStr s)) = Inr d"
  by (simp add: get_stock_price_handler split: prod.splits sum.splits)

lemma float_if_in_optional:
  "map_option as_float (latest k) = map_option Inr x \<Longrightarrow>
   float_if_in latest k = Inr (optional_float x)"
  by (cases "latest k"; cases x) (auto simp: float_if_in_def float_of_def)

lemma int_if_in_optional:
  "map_option as_int (latest k) = map_option Inr x \<Longrightarrow>
   int_if_in latest k = Inr (optional_int x)"
  by (cases "latest k"; cases x) (auto simp: int_if_in_def)

lemma float_of_present:
  "map_option as_float (latest k) = Some (Inr x) \<Longrightarrow> float_of latest k = Inr (PyFloat x)"
  by (cases "latest k") (auto simp: float_of_def)

lemma date_of_bound:
  "date_of latest (Some d) =
     Inr (PyStr (case latest ''time'' of Some t \<Rightarrow> as_str t | None \<Rightarrow> d))"
  by (simp add: date_of_def split: option.splits)

subsection \<open>A symbol that is not a string\<close>

lemma try_sources_not_str:
  "py_upper symbol = Inl e \<Longrightarrow>
   \<exists>l'. try_sources cfg vn symbol srcs l w = (l', w) \<and> df l' = df l"
proof (induction srcs arbitrary: l)
  case Nil
  show ?case by simp
next
  case (Cons source srcs)
  from Cons.IH [OF Cons.prems, of "l\<lparr>last_error := Some (str_exn e)\<rparr>"]
  show ?case using Cons.prems by simp
qed

lemma py_upper_Inl: "(\<forall>s. symbol \<noteq> PyStr s) \<Longrightarrow> py_upper symbol = Inl (no_attribute symbol ''upper'')"
  by (cases symbol) auto

lemma py_upper_Inr: "py_upper symbol = Inr S \<Longrightarrow> \<exists>s. symbol = PyStr s \<and> S = upper s"
  by (cases symbol) auto

lemma get_stock_price_not_str:
  assumes "\<forall>s. symbol \<noteq> PyStr s"
  shows "get_stock_price cfg w symbol = (Inl (no_attribute symbol ''upper''), w)"
proof -
  note up = py_upper_Inl [OF assms]
  have nd: "no_data_record symbol err = Inl (no_attribute symbol ''upper'')" for err
    using assms by (cases symbol) (auto simp: no_data_record_def)
  have er: "error_record msg symbol = Inl (no_attribute symbol ''upper'')" for msg
    by (simp add: error_record_def up)
  have "fetch_body cfg w symbol = (Inl (no_attribute symbol ''upper''), w)"
  proof (cases "Vnstock cfg")
    case None
    then show ?thesis by (simp add: fetch_body_def er)
  next
    case (Some vn)
    from try_sources_not_str [OF up, of cfg vn sources init_locals w] obtain l' where
      "try_sources cfg vn symbol sources init_locals w = (l', w)" "df l' = None"
      by (auto simp: init_locals_def)
    with Some show ?thesis by (simp add: fetch_body_def nd)
  qed
  then show ?thesis by (simp add: get_stock_price_def er)
qed

subsection \<open>The batch loop\<close>

lemma world_before_0: "world_before cfg syms w 0 = w"
  by (simp add: world_before_def)

lemma world_before_Suc:
  "world_before cfg (symbol # syms) w (Suc i) =
     world_before cfg syms (snd (get_stock_price cfg w symbol)) i"
  by (simp add: world_before_def)

lemma fetch_each_strings:
  "\<exists>rs. fetch_each cfg (map PyStr ss) acc w =
           (Inr (acc @ rs), world_before cfg (map PyStr ss) w (length ss))
       \<and> length rs = length ss
       \<and> (\<forall>i < length ss. \<exists>d.
            fst (get_stock_price cfg (world_before cfg (map PyStr ss) w i) (PyStr (ss ! i))) = Inr d
            \<and> rs ! i = PyDict d)"
proof (induction ss arbitrary: acc w)
  case Nil
  show ?case by (simp add: world_before_0)
next
  case (Cons s ss)
  obtain d w1 where g: "get_stock_price cfg w (PyStr s) = (Inr d, w1)"
    using get_stock_price_returns [of cfg w s]
    by (cases "get_stock_price cfg w (PyStr s)") auto
  from Cons.IH [of "acc @ [PyDict d]" w1] obtain rs where
    rs: "fetch_each cfg (map PyStr ss) (acc @ [PyDict d]) w1 =
           (Inr ((acc @ [PyDict d]) @ rs), world_before cfg (map PyStr ss) w1 (length ss))"
      "length rs = length ss"
      "\<forall>i < length ss. \<exists>d.
            fst (get_stock_price cfg (world_before cfg (map PyStr ss) w1 i) (PyStr (ss ! i))) = Inr d
            \<and> rs ! i = PyDict d"
    by blast
  have each: "\<exists>d'. fst (get_stock_price cfg (world_before cfg (map PyStr (s # ss)) w i)
                    (PyStr ((s # ss) ! i))) = Inr d' \<and> (PyDict d # rs) ! i = PyDict d'"
    if "i < length (s # ss)" for i
  proof (cases i)
    case 0
    then show ?thesis using g by (simp add: world_before_0)
  next
    case (Suc j)
    with that rs(3) g show ?thesis by (simp add: world_before_Suc)
  qed
  show ?case
    using g rs(1,2) each
    by (intro exI [of _ "PyDict d # rs"]) (simp add: world_before_Suc)
qed

subsection \<open>The shape of a result\<close>

lemma build_quote_shape:
  "build_quote (PyStr s) latest ed = Inr d \<Longrightarrow>
   \<exists>price date op hi lo vol.
     d = [(''symbol'', PyStr (upper s)), (''price'', price), (''date'', date),
          (''source'', PyStr ''vnstock3-api''), (''open'', op), (''high'', hi),
          (''low'', lo), (''volume'', vol)]"
  by (auto simp: build_quote_def split: sum.splits)

lemma fetch_body_shape:
  assumes "fetch_body cfg w (PyStr s) = (Inr d, w')"
  shows "(\<exists>m. d = [(''error'', PyStr m), (''symbol'', PyStr (upper s))]) \<or>
     (\<exists>price date op hi lo vol.
        d = [(''symbol'', PyStr (upper s)), (''price'', price), (''date'', date),
             (''source'', PyStr ''vnstock3-api''), (''open'', op), (''high'', hi),
             (''low'', lo), (''volume'', vol)])"
  using assms
  by (auto simp: fetch_body_def error_record_str no_data_record_str
        split: option.splits prod.splits if_splits dest: build_quote_shape)

lemma get_stock_price_shape:
  assumes "get_stock_price cfg w (PyStr s) = (Inr d, w')"
  shows "(\<exists>m. d = [(''error'', PyStr m), (''symbol'', PyStr (upper s))]) \<or>
     (\<exists>price date op hi lo vol.
        d = [(''symbol'', PyStr (upper s)), (''price'', price), (''date'', date),
             (''source'', PyStr ''vnstock3-api''), (''open'', op), (''high'', hi),
             (''low'', lo), (''volume'', vol)])"
proof (cases "fetch_body cfg w (PyStr s)")
  case (Pair r w1)
  show ?thesis
  proof (cases r)
    case (Inl e)
    with Pair assms show ?thesis by (auto simp: get_stock_price_handler)
  next
    case (Inr d1)
    with Pair assms have "fetch_body cfg w (PyStr s) = (Inr d, w')"
      by (simp add: get_stock_price_handler)
    then show ?thesis by (rule fetch_body_shape)
  qed
qed

subsection \<open>The check of the batch route\<close>

lemma isinstance_list_iff: "isinstance_list v \<longleftrightarrow> (\<exists>xs. v = PyList xs)"
  by (cases v) auto

subsection \<open>Chronology\<close>

lemma oldest_first_nth_less:
  assumes "oldest_first day rows" and "i < j" and "j < length rows"
  shows "day (rows ! i) < day (rows ! j)"
proof -
  from assms(1) have sw: "sorted_wrt (<) (map day rows)" by (simp add: oldest_first_def)
  from assms(3) have j: "j < length (map day rows)" by simp
  from sorted_wrt_nth_less [OF sw assms(2) j] show ?thesis
    using assms(2,3) by simp
qed

lemma chronologically_last_last:
  assumes "oldest_first day rows" and "rows \<noteq> []"
  shows "chronologically_last day rows (last rows)"
proof -
  have "day b' \<le> day (last rows)" if "b' \<in> set rows" for b'
  proof -
    from that obtain j where j: "j < length rows" "rows ! j = b'"
      by (auto simp: in_set_conv_nth)
    show ?thesis
    proof (cases "j = length rows - 1")
      case True
      with j assms(2) show ?thesis by (simp add: last_conv_nth)
    next
      case False
      with j(1) have "j < length rows - 1" by simp
      from oldest_first_nth_less [OF assms(1) this] assms(2) j
      show ?thesis by (simp add: last_conv_nth)
    qed
  qed
  with assms(2) show ?thesis by (simp add: chronologically_last_def)
qed

lemma chronologically_last_unique:
  assumes "oldest_first day rows" and "chronologically_last day rows b"
  shows "b = last rows"
proof -
  from assms(2) have mem: "b \<in> set rows" and mx: "\<forall>b' \<in> set rows. day b' \<le> day b"
    by (simp_all add: chronologically_last_def)
  from mem have ne: "rows \<noteq> []" by auto
  from mem obtain i where i: "i < length rows" "rows ! i = b"
    by (auto simp: in_set_conv_nth)
  have "i = length rows - 1"
  proof (rule ccontr)
    assume "i \<noteq> length rows - 1"
    with i(1) have lt: "i < length rows - 1" by simp
    from oldest_first_nth_less [OF assms(1) lt] ne i
    have "day b < day (last rows)" by (simp add: last_conv_nth)
    moreover from mx ne have "day (last rows) \<le> day b" by simp
    ultimately show False by simp
  qed
  with i ne show ?thesis by (simp add: last_conv_nth)
qed

subsection \<open>The concrete upstream, evaluated\<close>

lemma upper_vnm: "upper ''vnm'' = ''VNM''" and upper_fpt: "upper ''fpt'' = ''FPT''"
  and upper_hpg: "upper ''hpg'' = ''HPG''"
  by (simp_all add: upper_def upper_char_def)

lemma demo_query:
  "query (demo_cfg key) demo_vn S source w =
     demo_vn S source ''2024-05-01'' ''2024-05-06'' w"
  by (simp add: query_def demo_cfg_def)

lemma demo_outcomes_hpg:
  "outcomes (demo_cfg None) demo_vn ''HPG'' sources [] =
     [Stock_raises ''403 Forbidden'', History_returns (Some []), History_raises ''timed out'',
      History_returns None]"
  by (simp add: sources_def demo_query demo_vn_def)

lemma demo_fetch_hpg:
  "get_stock_price (demo_cfg key) w (PyStr ''hpg'') =
     (Inr [(''error'', PyStr ''No data available for hpg. Last error: timed out''),
           (''symbol'', PyStr ''HPG'')],
      w @ [(''HPG'', ''TCBS''), (''HPG'', ''VND''), (''HPG'', ''MSN''), (''HPG'', ''VCI'')])"
  by (simp add: get_stock_price_handler fetch_body_def demo_cfg_def sources_def
        init_locals_def upper_hpg query_def demo_vn_def no_data_record_str no_data_message_def)

lemma demo_fetch_vnm:
  "get_stock_price (demo_cfg key) w (PyStr ''vnm'') =
     (Inr [(''symbol'', PyStr ''VNM''), (''price'', PyFloat 67), (''date'', PyStr ''2024-05-03''),
           (''source'', PyStr ''vnstock3-api''), (''open'', PyFloat 66), (''high'', PyFloat 68),
           (''low'', PyNone), (''volume'', PyInt 1200)],
      w @ [(''VNM'', ''TCBS''), (''VNM'', ''VND'')])"
  by (simp add: demo_vn_def get_stock_price_handler fetch_body_def demo_cfg_def
        sources_def init_locals_def upper_vnm query_def build_quote_def float_of_def
        float_if_in_def int_if_in_def date_of_def latest_bar_def number_def timestamp_def)

lemma upper_mwg: "upper ''mwg'' = ''MWG''"
  by (simp add: upper_def upper_char_def)

lemma demo_days:
  "time_text older_bar = ''2024-05-02''" "time_text latest_bar = ''2024-05-03''"
  by (simp_all add: time_text_def older_bar_def latest_bar_def timestamp_def)

text \<open>
  A frame that is not oldest first: for MWG the source returns the newest bar first,
  \<^verbatim>\<open>df.iloc[-1]\<close> is the older bar, and its close 66 is served although the
  chronologically last bar closed at 67.
\<close>

lemma newest_first_frame:
  "query (demo_cfg None) demo_vn ''MWG'' ''TCBS'' [] =
     (History_returns (Some [latest_bar, older_bar]), [(''MWG'', ''TCBS'')]) \<and>
   chronologically_last time_text [latest_bar, older_bar] latest_bar \<and>
   map_option as_float (latest_bar ''close'') = Some (Inr 67) \<and>
   get_stock_price (demo_cfg None) [] (PyStr ''mwg'') =
     (Inr [(''symbol'', PyStr ''MWG''), (''price'', PyFloat 66), (''date'', PyStr ''2024-05-02''),
           (''source'', PyStr ''vnstock3-api''), (''open'', PyFloat 65), (''high'', PyNone),
           (''low'', PyNone), (''volume'', PyInt 900)],
      [(''MWG'', ''TCBS'')])"
proof -
  have "chronologically_last time_text [latest_bar, older_bar] latest_bar"
    by (simp add: chronologically_last_def demo_days)
  then show ?thesis
    by (simp add: demo_query demo_vn_def get_stock_price_handler fetch_body_def demo_cfg_def
        sources_def init_locals_def upper_mwg query_def build_quote_def float_of_def
        float_if_in_def int_if_in_def date_of_def latest_bar_def older_bar_def number_def
        timestamp_def)
qed

section \<open>Properties of the quote fetcher\<close>

text \<open>
  C1. The sources are tried in the declared order TCBS, VND, MSN, VCI. When the
  sources before one all fail and that one returns a frame with rows, the loop
  stops there: the result is built from the last row of that frame alone, and the
  world is the one this query left, so no later source is asked, whatever it would
  have answered.
\<close>

theorem first_success_wins:
  assumes "Vnstock cfg = Some vn"
    and "sources = pre @ source # post"
    and "\<forall>a \<in> set (outcomes cfg vn (upper s) pre w). fails a"
    and "query cfg vn (upper s) source (world_after cfg vn (upper s) pre w)
           = (History_returns (Some rows), w')"
    and "rows \<noteq> []"
  shows "sources = [''TCBS'', ''VND'', ''MSN'', ''VCI''] \<and>
     get_stock_price cfg w (PyStr s) =
       (case build_quote (PyStr s) (last rows)
               (Some (now cfg (world_after cfg vn (upper s) pre w))) of
          Inr quote \<Rightarrow> Inr quote
        | Inl e \<Rightarrow> Inr [(''error'', PyStr (str_exn e)), (''symbol'', PyStr (upper s))],
        w')"
  using fetch_body_first_success [OF assms]
  by (simp add: get_stock_price_handler sources_def split: sum.splits)

theorem first_success_wins_witness:
  "Vnstock (demo_cfg None) = Some demo_vn \<and>
   sources = [''TCBS''] @ ''VND'' # [''MSN'', ''VCI''] \<and>
   outcomes (demo_cfg None) demo_vn ''VNM'' [''TCBS''] [] = [Stock_raises ''403 Forbidden''] \<and>
   query (demo_cfg None) demo_vn ''VNM'' ''VND''
       (world_after (demo_cfg None) demo_vn ''VNM'' [''TCBS''] [])
     = (History_returns (Some [older_bar, latest_bar]), [(''VNM'', ''TCBS''), (''VNM'', ''VND'')]) \<and>
   get_stock_price (demo_cfg None) [] (PyStr ''vnm'') =
     (Inr [(''symbol'', PyStr ''VNM''), (''price'', PyFloat 67), (''date'', PyStr ''2024-05-03''),
           (''source'', PyStr ''vnstock3-api''), (''open'', PyFloat 66), (''high'', PyFloat 68),
           (''low'', PyNone), (''volume'', PyInt 1200)],
      [(''VNM'', ''TCBS''), (''VNM'', ''VND'')])"
proof -
  have h1: "Vnstock (demo_cfg None) = Some demo_vn" by (simp add: demo_cfg_def)
  have h2: "sources = [''TCBS''] @ ''VND'' # [''MSN'', ''VCI'']" by (simp add: sources_def)
  have h3: "\<forall>a \<in> set (outcomes (demo_cfg None) demo_vn (upper ''vnm'') [''TCBS''] []). fails a"
    by (simp add: upper_vnm demo_query demo_vn_def)
  have h4: "query (demo_cfg None) demo_vn (upper ''vnm'') ''VND''
       (world_after (demo_cfg None) demo_vn (upper ''vnm'') [''TCBS''] [])
     = (History_returns (Some [older_bar, latest_bar]), [(''VNM'', ''TCBS''), (''VNM'', ''VND'')])"
    by (simp add: upper_vnm demo_query demo_vn_def)
  have h5: "[older_bar, latest_bar] \<noteq> []" by simp
  have q: "build_quote (PyStr ''vnm'') latest_bar (Some ''2024-05-06'') =
     Inr [(''symbol'', PyStr ''VNM''), (''price'', PyFloat 67), (''date'', PyStr ''2024-05-03''),
           (''source'', PyStr ''vnstock3-api''), (''open'', PyFloat 66), (''high'', PyFloat 68),
           (''low'', PyNone), (''volume'', PyInt 1200)]"
    by (simp add: build_quote_def float_of_def float_if_in_def int_if_in_def date_of_def
          latest_bar_def number_def timestamp_def upper_vnm)
  have n: "now (demo_cfg None) w = ''2024-05-06''" for w by (simp add: demo_cfg_def)
  have o: "outcomes (demo_cfg None) demo_vn ''VNM'' [''TCBS''] [] = [Stock_raises ''403 Forbidden'']"
    by (simp add: demo_query demo_vn_def)
  show ?thesis
    using h1 h2 o h4 first_success_wins [OF h1 h2 h3 h4 h5]
    by (simp add: upper_vnm q n)
qed

text \<open>
  A frame with rows does not yet give a quote: the last row of the frame for FPT has
  no \<^verbatim>\<open>close\<close> column, \<^verbatim>\<open>latest['close']\<close> raises \<^verbatim>\<open>KeyError\<close>, and the outer handler
  turns it into an error record.
\<close>

theorem quote_needs_close_counterexample:
  "query (demo_cfg None) demo_vn ''FPT'' ''TCBS'' [] =
     (History_returns (Some [bar_without_close]), [(''FPT'', ''TCBS'')]) \<and>
   has_data (Some [bar_without_close]) \<and>
   get_stock_price (demo_cfg None) [] (PyStr ''fpt'') =
     (Inr [(''error'', PyStr (quoted ''close'')), (''symbol'', PyStr ''FPT'')],
      [(''FPT'', ''TCBS'')]) \<and>
   \<not> is_Quote [(''error'', PyStr (quoted ''close'')), (''symbol'', PyStr ''FPT'') :: string \<times> real py]"
  by (simp add: demo_query demo_vn_def get_stock_price_handler fetch_body_def demo_cfg_def
        sources_def init_locals_def upper_fpt query_def build_quote_def float_of_def
        bar_without_close_def is_Quote_def)

text \<open>
  C2, as the code has it. When the first source that does not fail returns a frame
  that is oldest first, and the chronologically last bar of that frame has a \<^verbatim>\<open>close\<close>
  that \<^verbatim>\<open>float\<close> converts, and each of \<^verbatim>\<open>open\<close>, \<^verbatim>\<open>high\<close>, \<^verbatim>\<open>low\<close> (by \<^verbatim>\<open>float\<close>) and
  \<^verbatim>\<open>volume\<close> (by \<^verbatim>\<open>int\<close>) that is present in that bar converts, then the fetch returns
  the quote with the symbol in upper case, the converted close of the chronologically
  last bar as price, that bar's own \<^verbatim>\<open>time\<close> as date if it has one and the end date of
  the query otherwise, the fixed source tag, and each optional field with its converted
  value if the bar has it and \<^verbatim>\<open>None\<close> if not. An assumption
  \<open>map_option as_float (bar k) = map_option Inr x\<close> reads: the bar has no column \<open>k\<close> and
  \<open>x\<close> is \<open>None\<close>, or it has one and \<^verbatim>\<open>float\<close> turns its cell into the value in \<open>x\<close>.
\<close>

theorem quote_of_last_bar:
  assumes "Vnstock cfg = Some vn"
    and "sources = pre @ source # post"
    and "\<forall>a \<in> set (outcomes cfg vn (upper s) pre w). fails a"
    and "query cfg vn (upper s) source (world_after cfg vn (upper s) pre w)
           = (History_returns (Some rows), w')"
    and "oldest_first day rows"
    and "chronologically_last day rows latest"
    and "map_option as_float (latest ''close'') = Some (Inr price)"
    and "map_option as_float (latest ''open'') = map_option Inr op"
    and "map_option as_float (latest ''high'') = map_option Inr hi"
    and "map_option as_float (latest ''low'') = map_option Inr lo"
    and "map_option as_int (latest ''volume'') = map_option Inr vol"
  shows "get_stock_price cfg w (PyStr s) =
     (Inr [(''symbol'', PyStr (upper s)),
           (''price'', PyFloat price),
           (''date'', PyStr (case latest ''time'' of
                               Some t \<Rightarrow> as_str t
                             | None \<Rightarrow> now cfg (world_after cfg vn (upper s) pre w))),
           (''source'', PyStr ''vnstock3-api''),
           (''open'', optional_float op),
           (''high'', optional_float hi),
           (''low'', optional_float lo),
           (''volume'', optional_int vol)],
      w')"
proof -
  from assms(6) have ne: "rows \<noteq> []"
    by (auto simp: chronologically_last_def)
  have latest: "last rows = latest"
    using chronologically_last_unique [OF assms(5,6)] by simp
  have "build_quote (PyStr s) latest (Some (now cfg (world_after cfg vn (upper s) pre w))) =
     Inr [(''symbol'', PyStr (upper s)),
           (''price'', PyFloat price),
           (''date'', PyStr (case latest ''time'' of
                               Some t \<Rightarrow> as_str t
                             | None \<Rightarrow> now cfg (world_after cfg vn (upper s) pre w))),
           (''source'', PyStr ''vnstock3-api''),
           (''open'', optional_float op),
           (''high'', optional_float hi),
           (''low'', optional_float lo),
           (''volume'', optional_int vol)]"
    using assms(7-11)
    by (simp add: build_quote_def float_of_present date_of_bound float_if_in_optional
          int_if_in_optional)
  with fetch_body_first_success [OF assms(1-4) ne] latest show ?thesis
    by (simp add: get_stock_price_handler)
qed

theorem quote_of_last_bar_witness:
  "Vnstock (demo_cfg None) = Some demo_vn \<and>
   sources = [''TCBS''] @ ''VND'' # [''MSN'', ''VCI''] \<and>
   outcomes (demo_cfg None) demo_vn ''VNM'' [''TCBS''] [] = [Stock_raises ''403 Forbidden''] \<and>
   query (demo_cfg None) demo_vn ''VNM'' ''VND''
       (world_after (demo_cfg None) demo_vn ''VNM'' [''TCBS''] [])
     = (History_returns (Some [older_bar, latest_bar]), [(''VNM'', ''TCBS''), (''VNM'', ''VND'')]) \<and>
   oldest_first time_text [older_bar, latest_bar] \<and>
   chronologically_last time_text [older_bar, latest_bar] latest_bar \<and>
   map_option as_float (latest_bar ''close'') = Some (Inr 67) \<and>
   map_option as_float (latest_bar ''open'') = Some (Inr 66) \<and>
   map_option as_float (latest_bar ''high'') = Some (Inr 68) \<and>
   map_option as_float (latest_bar ''low'') = None \<and>
   map_option as_int (latest_bar ''volume'') = Some (Inr 1200) \<and>
   map_option as_str (latest_bar ''time'') = Some ''2024-05-03'' \<and>
   get_stock_price (demo_cfg None) [] (PyStr ''vnm'') =
     (Inr [(''symbol'', PyStr ''VNM''), (''price'', PyFloat 67), (''date'', PyStr ''2024-05-03''),
           (''source'', PyStr ''vnstock3-api''), (''open'', PyFloat 66), (''high'', PyFloat 68),
           (''low'', PyNone), (''volume'', PyInt 1200)],
      [(''VNM'', ''TCBS''), (''VNM'', ''VND'')])"
proof -
  have h1: "Vnstock (demo_cfg None) = Some demo_vn" by (simp add: demo_cfg_def)
  have h2: "sources = [''TCBS''] @ ''VND'' # [''MSN'', ''VCI'']" by (simp add: sources_def)
  have o: "outcomes (demo_cfg None) demo_vn ''VNM'' [''TCBS''] [] = [Stock_raises ''403 Forbidden'']"
    by (simp add: demo_query demo_vn_def)
  have h3: "\<forall>a \<in> set (outcomes (demo_cfg None) demo_vn (upper ''vnm'') [''TCBS''] []). fails a"
    by (simp add: upper_vnm demo_query demo_vn_def)
  have h4: "query (demo_cfg None) demo_vn (upper ''vnm'') ''VND''
       (world_after (demo_cfg None) demo_vn (upper ''vnm'') [''TCBS''] [])
     = (History_returns (Some [older_bar, latest_bar]), [(''VNM'', ''TCBS''), (''VNM'', ''VND'')])"
    by (simp add: upper_vnm demo_query demo_vn_def)
  have h5: "oldest_first time_text [older_bar, latest_bar]"
    by (simp add: oldest_first_def demo_days)
  have h6: "chronologically_last time_text [older_bar, latest_bar] latest_bar"
    by (simp add: chronologically_last_def demo_days)
  have c: "map_option as_float (latest_bar ''close'') = Some (Inr 67)"
    and op: "map_option as_float (latest_bar ''open'') = map_option Inr (Some 66)"
    and hi: "map_option as_float (latest_bar ''high'') = map_option Inr (Some 68)"
    and lo: "map_option as_float (latest_bar ''low'') = map_option Inr None"
    and vol: "map_option as_int (latest_bar ''volume'') = map_option Inr (Some 1200)"
    and t: "map_option as_str (latest_bar ''time'') = Some ''2024-05-03''"
    by (simp_all add: latest_bar_def number_def timestamp_def)
  show ?thesis
    using h1 h2 o h4 h5 h6 c op hi lo vol t
      quote_of_last_bar [OF h1 h2 h3 h4 h5 h6 c op hi lo vol]
    by (simp add: upper_vnm split: option.splits)
qed

text \<open>
  C3. When every source fails (it raises, or returns \<^verbatim>\<open>None\<close> or a frame without rows),
  the fetch returns the error record whose message holds the symbol as it was given
  and the text of the last error any source raised, or \<^verbatim>\<open>None\<close> when none raised; all
  four sources have been asked.
\<close>

theorem all_sources_fail:
  assumes "Vnstock cfg = Some vn"
    and "\<forall>a \<in> set (outcomes cfg vn (upper s) sources w). fails a"
  shows "get_stock_price cfg w (PyStr s) =
     (Inr [(''error'',
            PyStr (''No data available for '' @ s @ ''. Last error: '' @
                   (case last_raised (outcomes cfg vn (upper s) sources w) of
                      None \<Rightarrow> ''None''
                    | Some m \<Rightarrow> m))),
           (''symbol'', PyStr (upper s))],
      world_after cfg vn (upper s) sources w)"
  using fetch_body_no_data [OF assms]
  by (simp add: get_stock_price_handler no_data_message_def)

theorem all_sources_fail_witness:
  "Vnstock (demo_cfg None) = Some demo_vn \<and>
   outcomes (demo_cfg None) demo_vn ''HPG'' sources [] =
     [Stock_raises ''403 Forbidden'', History_returns (Some []), History_raises ''timed out'',
      History_returns None] \<and>
   get_stock_price (demo_cfg None) [] (PyStr ''hpg'') =
     (Inr [(''error'', PyStr ''No data available for hpg. Last error: timed out''),
           (''symbol'', PyStr ''HPG'')],
      [(''HPG'', ''TCBS''), (''HPG'', ''VND''), (''HPG'', ''MSN''), (''HPG'', ''VCI'')])"
proof -
  have h1: "Vnstock (demo_cfg None) = Some demo_vn" by (simp add: demo_cfg_def)
  have h2: "\<forall>a \<in> set (outcomes (demo_cfg None) demo_vn (upper ''hpg'') sources []). fails a"
    by (simp add: upper_hpg demo_outcomes_hpg)
  have l: "last_raised [Stock_raises ''403 Forbidden'', History_returns (Some []),
             History_raises ''timed out'', History_returns None] = Some ''timed out''"
    by (simp add: last_raised_Cons last_raised_Nil)
  have w: "world_after (demo_cfg None) demo_vn ''HPG'' sources [] =
      [(''HPG'', ''TCBS''), (''HPG'', ''VND''), (''HPG'', ''MSN''), (''HPG'', ''VCI'')]"
    by (simp add: sources_def demo_query demo_vn_def)
  show ?thesis
    using h1 all_sources_fail [OF h1 h2]
    by (simp add: upper_hpg demo_outcomes_hpg l w)
qed

text \<open>
  An exception inside the loop is not turned into an error record: for VNM the first
  source raises, the loop records the text and goes on, the second source has data and
  the result is a quote.
\<close>

theorem caught_in_loop_counterexample:
  "query (demo_cfg None) demo_vn ''VNM'' ''TCBS'' [] =
     (Stock_raises ''403 Forbidden'', [(''VNM'', ''TCBS'')]) \<and>
   get_stock_price (demo_cfg None) [] (PyStr ''vnm'') =
     (Inr [(''symbol'', PyStr ''VNM''), (''price'', PyFloat 67), (''date'', PyStr ''2024-05-03''),
           (''source'', PyStr ''vnstock3-api''), (''open'', PyFloat 66), (''high'', PyFloat 68),
           (''low'', PyNone), (''volume'', PyInt 1200)],
      [(''VNM'', ''TCBS''), (''VNM'', ''VND'')]) \<and>
   \<not> is_ErrorResult
       [(''symbol'', PyStr ''VNM''), (''price'', PyFloat 67), (''date'', PyStr ''2024-05-03''),
        (''source'', PyStr ''vnstock3-api''), (''open'', PyFloat 66), (''high'', PyFloat 68),
        (''low'', PyNone), (''volume'', PyInt (1200 :: int)) :: string \<times> real py]"
  by (simp add: demo_query demo_vn_def get_stock_price_handler fetch_body_def demo_cfg_def
        sources_def init_locals_def upper_vnm query_def build_quote_def float_of_def
        float_if_in_def int_if_in_def date_of_def latest_bar_def number_def timestamp_def)

text \<open>
  C4, as the code has it. For every symbol that is a string the fetch returns a
  record and no exception leaves it. An exception a source raises inside the loop is
  caught there and the next source is tried: when a later source returns a frame with
  rows, the result is built from that frame, a quote without the key \<^verbatim>\<open>error\<close> if the
  last row converts, whatever was raised before; the text of the exception is only
  recorded, and when no source returns rows the no-data record holds the text raised
  last. An exception raised outside the loop, while the quote is built from the last
  row, is turned into the error record carrying its text.
\<close>

theorem fetch_never_raises:
  "(\<exists>d. fst (get_stock_price cfg w (PyStr s)) = Inr d) \<and>
   (\<forall>vn pre source post m rows w' quote.
      Vnstock cfg = Some vn \<longrightarrow> sources = pre @ source # post \<longrightarrow>
      (\<forall>a \<in> set (outcomes cfg vn (upper s) pre w). fails a) \<longrightarrow>
      last_raised (outcomes cfg vn (upper s) pre w) = Some m \<longrightarrow>
      query cfg vn (upper s) source (world_after cfg vn (upper s) pre w)
        = (History_returns (Some rows), w') \<longrightarrow>
      rows \<noteq> [] \<longrightarrow>
      build_quote (PyStr s) (last rows) (Some (now cfg (world_after cfg vn (upper s) pre w)))
        = Inr quote \<longrightarrow>
      get_stock_price cfg w (PyStr s) = (Inr quote, w') \<and> \<not> has_key ''error'' quote) \<and>
   (\<forall>vn m.
      Vnstock cfg = Some vn \<longrightarrow>
      (\<forall>a \<in> set (outcomes cfg vn (upper s) sources w). fails a) \<longrightarrow>
      last_raised (outcomes cfg vn (upper s) sources w) = Some m \<longrightarrow>
      get_stock_price cfg w (PyStr s) =
        (Inr [(''error'', PyStr (''No data available for '' @ s @ ''. Last error: '' @ m)),
              (''symbol'', PyStr (upper s))],
         world_after cfg vn (upper s) sources w)) \<and>
   (\<forall>vn pre source post rows w' e.
      Vnstock cfg = Some vn \<longrightarrow> sources = pre @ source # post \<longrightarrow>
      (\<forall>a \<in> set (outcomes cfg vn (upper s) pre w). fails a) \<longrightarrow>
      query cfg vn (upper s) source (world_after cfg vn (upper s) pre w)
        = (History_returns (Some rows), w') \<longrightarrow>
      rows \<noteq> [] \<longrightarrow>
      build_quote (PyStr s) (last rows) (Some (now cfg (world_after cfg vn (upper s) pre w)))
        = Inl e \<longrightarrow>
      get_stock_price cfg w (PyStr s) =
        (Inr [(''error'', PyStr (str_exn e)), (''symbol'', PyStr (upper s))], w'))"
proof (intro conjI allI impI)
  show "\<exists>d. fst (get_stock_price cfg w (PyStr s)) = Inr d"
    by (rule get_stock_price_returns)
next
  fix vn pre source post m rows w' quote
  assume a: "Vnstock cfg = Some vn" "sources = pre @ source # post"
    "\<forall>a \<in> set (outcomes cfg vn (upper s) pre w). fails a"
    "query cfg vn (upper s) source (world_after cfg vn (upper s) pre w)
       = (History_returns (Some rows), w')"
    "rows \<noteq> []"
    and q: "build_quote (PyStr s) (last rows)
              (Some (now cfg (world_after cfg vn (upper s) pre w))) = Inr quote"
  from fetch_body_first_success [OF a] q
  show "get_stock_price cfg w (PyStr s) = (Inr quote, w')"
    by (simp add: get_stock_price_handler)
  from build_quote_shape [OF q] show "\<not> has_key ''error'' quote"
    by (auto simp: has_key_def)
next
  fix vn m
  assume a: "Vnstock cfg = Some vn"
    "\<forall>a \<in> set (outcomes cfg vn (upper s) sources w). fails a"
    and m: "last_raised (outcomes cfg vn (upper s) sources w) = Some m"
  from fetch_body_no_data [OF a] m
  show "get_stock_price cfg w (PyStr s) =
        (Inr [(''error'', PyStr (''No data available for '' @ s @ ''. Last error: '' @ m)),
              (''symbol'', PyStr (upper s))],
         world_after cfg vn (upper s) sources w)"
    by (simp add: get_stock_price_handler no_data_message_def)
next
  fix vn pre source post rows w' e
  assume a: "Vnstock cfg = Some vn" "sources = pre @ source # post"
    "\<forall>a \<in> set (outcomes cfg vn (upper s) pre w). fails a"
    "query cfg vn (upper s) source (world_after cfg vn (upper s) pre w)
       = (History_returns (Some rows), w')"
    "rows \<noteq> []"
    and e: "build_quote (PyStr s) (last rows)
              (Some (now cfg (world_after cfg vn (upper s) pre w))) = Inl e"
  from fetch_body_first_success [OF a] e
  show "get_stock_price cfg w (PyStr s) =
        (Inr [(''error'', PyStr (str_exn e)), (''symbol'', PyStr (upper s))], w')"
    by (simp add: get_stock_price_handler)
qed

theorem fetch_never_raises_witness:
  "outcomes (demo_cfg None) demo_vn ''VNM'' [''TCBS''] [] = [Stock_raises ''403 Forbidden''] \<and>
   last_raised [Stock_raises ''403 Forbidden'' :: real attempt] = Some ''403 Forbidden'' \<and>
   query (demo_cfg None) demo_vn ''VNM'' ''VND'' [(''VNM'', ''TCBS'')]
     = (History_returns (Some [older_bar, latest_bar]), [(''VNM'', ''TCBS''), (''VNM'', ''VND'')]) \<and>
   get_stock_price (demo_cfg None) [] (PyStr ''vnm'') =
     (Inr [(''symbol'', PyStr ''VNM''), (''price'', PyFloat 67), (''date'', PyStr ''2024-05-03''),
           (''source'', PyStr ''vnstock3-api''), (''open'', PyFloat 66), (''high'', PyFloat 68),
           (''low'', PyNone), (''volume'', PyInt 1200)],
      [(''VNM'', ''TCBS''), (''VNM'', ''VND'')]) \<and>
   outcomes (demo_cfg None) demo_vn ''HPG'' sources [] =
     [Stock_raises ''403 Forbidden'', History_returns (Some []), History_raises ''timed out'',
      History_returns None] \<and>
   get_stock_price (demo_cfg None) [] (PyStr ''hpg'') =
     (Inr [(''error'', PyStr ''No data available for hpg. Last error: timed out''),
           (''symbol'', PyStr ''HPG'')],
      [(''HPG'', ''TCBS''), (''HPG'', ''VND''), (''HPG'', ''MSN''), (''HPG'', ''VCI'')]) \<and>
   query (demo_cfg None) demo_vn ''FPT'' ''TCBS'' []
     = (History_returns (Some [bar_without_close]), [(''FPT'', ''TCBS'')]) \<and>
   build_quote (PyStr ''fpt'') bar_without_close (Some ''2024-05-06'') = Inl (KeyError ''close'') \<and>
   get_stock_price (demo_cfg None) [] (PyStr ''fpt'') =
     (Inr [(''error'', PyStr (quoted ''close'')), (''symbol'', PyStr ''FPT'')],
      [(''FPT'', ''TCBS'')])"
proof -
  note thm_vnm = fetch_never_raises [of "demo_cfg None" "[]" "''vnm''"]
  note thm_hpg = fetch_never_raises [of "demo_cfg None" "[]" "''hpg''"]
  note thm_fpt = fetch_never_raises [of "demo_cfg None" "[]" "''fpt''"]
  have v: "Vnstock (demo_cfg None) = Some demo_vn" by (simp add: demo_cfg_def)
  have n: "now (demo_cfg None) w = ''2024-05-06''" for w by (simp add: demo_cfg_def)
  \<comment> \<open>VNM: the first source raises, the second has data\<close>
  have s1: "sources = [''TCBS''] @ ''VND'' # [''MSN'', ''VCI'']" by (simp add: sources_def)
  have o1: "outcomes (demo_cfg None) demo_vn ''VNM'' [''TCBS''] [] = [Stock_raises ''403 Forbidden'']"
    by (simp add: demo_query demo_vn_def)
  have f1: "\<forall>a \<in> set (outcomes (demo_cfg None) demo_vn (upper ''vnm'') [''TCBS''] []). fails a"
    by (simp add: upper_vnm demo_query demo_vn_def)
  have l1: "last_raised [Stock_raises ''403 Forbidden'' :: real attempt] = Some ''403 Forbidden''"
    by (simp add: last_raised_Cons last_raised_Nil)
  have l1': "last_raised (outcomes (demo_cfg None) demo_vn (upper ''vnm'') [''TCBS''] [])
      = Some ''403 Forbidden''"
    using o1 l1 by (simp add: upper_vnm)
  have q1: "query (demo_cfg None) demo_vn (upper ''vnm'') ''VND''
       (world_after (demo_cfg None) demo_vn (upper ''vnm'') [''TCBS''] [])
     = (History_returns (Some [older_bar, latest_bar]), [(''VNM'', ''TCBS''), (''VNM'', ''VND'')])"
    by (simp add: upper_vnm demo_query demo_vn_def)
  have q1': "query (demo_cfg None) demo_vn ''VNM'' ''VND'' [(''VNM'', ''TCBS'')]
     = (History_returns (Some [older_bar, latest_bar]), [(''VNM'', ''TCBS''), (''VNM'', ''VND'')])"
    by (simp add: demo_query demo_vn_def)
  have b1: "build_quote (PyStr ''vnm'') (last [older_bar, latest_bar])
       (Some (now (demo_cfg None) (world_after (demo_cfg None) demo_vn (upper ''vnm'') [''TCBS''] []))) =
     Inr [(''symbol'', PyStr ''VNM''), (''price'', PyFloat 67), (''date'', PyStr ''2024-05-03''),
           (''source'', PyStr ''vnstock3-api''), (''open'', PyFloat 66), (''high'', PyFloat 68),
           (''low'', PyNone), (''volume'', PyInt 1200)]"
    by (simp add: n build_quote_def float_of_def float_if_in_def int_if_in_def date_of_def
          latest_bar_def number_def timestamp_def upper_vnm)
  have r1: "get_stock_price (demo_cfg None) [] (PyStr ''vnm'') =
     (Inr [(''symbol'', PyStr ''VNM''), (''price'', PyFloat 67), (''date'', PyStr ''2024-05-03''),
           (''source'', PyStr ''vnstock3-api''), (''open'', PyFloat 66), (''high'', PyFloat 68),
           (''low'', PyNone), (''volume'', PyInt 1200)],
      [(''VNM'', ''TCBS''), (''VNM'', ''VND'')])"
    using thm_vnm v s1 f1 l1' q1 b1 by blast
  \<comment> \<open>HPG: no source has data, the last exception is the time-out\<close>
  have f2: "\<forall>a \<in> set (outcomes (demo_cfg None) demo_vn (upper ''hpg'') sources []). fails a"
    by (simp add: upper_hpg demo_outcomes_hpg)
  have l2: "last_raised (outcomes (demo_cfg None) demo_vn (upper ''hpg'') sources [])
      = Some ''timed out''"
    by (simp add: upper_hpg demo_outcomes_hpg last_raised_Cons last_raised_Nil)
  have w2: "world_after (demo_cfg None) demo_vn ''HPG'' sources [] =
      [(''HPG'', ''TCBS''), (''HPG'', ''VND''), (''HPG'', ''MSN''), (''HPG'', ''VCI'')]"
    by (simp add: sources_def demo_query demo_vn_def)
  have "get_stock_price (demo_cfg None) [] (PyStr ''hpg'') =
     (Inr [(''error'', PyStr (''No data available for '' @ ''hpg'' @ ''. Last error: '' @ ''timed out'')),
           (''symbol'', PyStr (upper ''hpg''))],
      world_after (demo_cfg None) demo_vn (upper ''hpg'') sources [])"
    using thm_hpg v f2 l2 by blast
  then have r2: "get_stock_price (demo_cfg None) [] (PyStr ''hpg'') =
     (Inr [(''error'', PyStr ''No data available for hpg. Last error: timed out''),
           (''symbol'', PyStr ''HPG'')],
      [(''HPG'', ''TCBS''), (''HPG'', ''VND''), (''HPG'', ''MSN''), (''HPG'', ''VCI'')])"
    by (simp add: w2 upper_hpg)
  \<comment> \<open>FPT: the last row has no close, the exception is raised outside the loop\<close>
  have s3: "sources = [] @ ''TCBS'' # [''VND'', ''MSN'', ''VCI'']" by (simp add: sources_def)
  have f3: "\<forall>a \<in> set (outcomes (demo_cfg None) demo_vn (upper ''fpt'') [] []). fails a"
    by simp
  have q3: "query (demo_cfg None) demo_vn (upper ''fpt'') ''TCBS''
       (world_after (demo_cfg None) demo_vn (upper ''fpt'') [] [])
     = (History_returns (Some [bar_without_close]), [(''FPT'', ''TCBS'')])"
    by (simp add: upper_fpt demo_query demo_vn_def)
  have q3': "query (demo_cfg None) demo_vn ''FPT'' ''TCBS'' []
     = (History_returns (Some [bar_without_close]), [(''FPT'', ''TCBS'')])"
    by (simp add: demo_query demo_vn_def)
  have b3': "build_quote (PyStr ''fpt'') bar_without_close (Some ''2024-05-06'')
      = Inl (KeyError ''close'')"
    by (simp add: build_quote_def float_of_def bar_without_close_def)
  have b3: "build_quote (PyStr ''fpt'') (last [bar_without_close])
       (Some (now (demo_cfg None) (world_after (demo_cfg None) demo_vn (upper ''fpt'') [] [])))
      = Inl (KeyError ''close'')"
    using b3' by (simp add: n)
  have ne3: "[bar_without_close] \<noteq> []" by simp
  have "get_stock_price (demo_cfg None) [] (PyStr ''fpt'') =
     (Inr [(''error'', PyStr (str_exn (KeyError ''close''))), (''symbol'', PyStr (upper ''fpt''))],
      [(''FPT'', ''TCBS'')])"
    using thm_fpt v s3 f3 q3 ne3 b3 by blast
  then have r3: "get_stock_price (demo_cfg None) [] (PyStr ''fpt'') =
     (Inr [(''error'', PyStr (quoted ''close'')), (''symbol'', PyStr ''FPT'')],
      [(''FPT'', ''TCBS'')])"
    by (simp add: upper_fpt)
  from o1 l1 q1' r1 demo_outcomes_hpg r2 q3' b3' r3 show ?thesis by simp
qed

text \<open>
  C5. When the upstream client library is unavailable (\<open>Vnstock\<close> is \<open>None\<close>), every fetch
  of a symbol returns at once the error record saying that the dependency is missing,
  with the symbol in upper case, and the world is left as it was: no source is asked.
\<close>

theorem missing_dependency:
  assumes "Vnstock cfg = None"
  shows "get_stock_price cfg w (PyStr s) =
     (Inr [(''error'', PyStr ''vnstock not installed''), (''symbol'', PyStr (upper s))], w)"
  using assms by (simp add: get_stock_price_handler fetch_body_def error_record_str)

theorem missing_dependency_witness:
  "Vnstock no_vnstock_cfg = None \<and>
   get_stock_price no_vnstock_cfg [] (PyStr ''vnm'') =
     (Inr [(''error'', PyStr ''vnstock not installed''), (''symbol'', PyStr ''VNM'')], [])"
proof -
  have h: "Vnstock no_vnstock_cfg = None" by (simp add: no_vnstock_cfg_def)
  show ?thesis using h missing_dependency [OF h, of "[]" "''vnm''"] by (simp add: upper_vnm)
qed

text \<open>
  C9. Every record a fetch returns was asked for with a string, holds under \<^verbatim>\<open>symbol\<close>
  that string in upper case, is either an error record or a quote and not both, and
  has the key \<^verbatim>\<open>error\<close> exactly when it is an error record. So the single-symbol route,
  which looks for that key, answers 404 for an error record and 200 for a quote.
\<close>

theorem result_shape:
  assumes "get_stock_price cfg w symbol = (Inr d, w')"
  shows "\<exists>s. symbol = PyStr s \<and>
      map_of d ''symbol'' = Some (PyStr (upper s)) \<and>
      (is_ErrorResult d \<noteq> is_Quote d) \<and>
      (has_key ''error'' d \<longleftrightarrow> is_ErrorResult d) \<and>
      (\<forall>req. verify_api_key cfg req \<longrightarrow>
         get_stock cfg req w s = (Inr (PyDict d, if is_ErrorResult d then 404 else 200), w'))"
proof -
  obtain s where s: "symbol = PyStr s"
    using assms get_stock_price_not_str [of symbol cfg w] by fastforce
  from assms s have g: "get_stock_price cfg w (PyStr s) = (Inr d, w')" by simp
  from get_stock_price_shape [OF g]
  have "map_of d ''symbol'' = Some (PyStr (upper s)) \<and>
      (is_ErrorResult d \<noteq> is_Quote d) \<and>
      (has_key ''error'' d \<longleftrightarrow> is_ErrorResult d)"
    by (auto simp: is_Quote_def has_key_def)
  moreover from this g have "\<forall>req. verify_api_key cfg req \<longrightarrow>
         get_stock cfg req w s = (Inr (PyDict d, if is_ErrorResult d then 404 else 200), w')"
    by (simp add: get_stock_def)
  ultimately show ?thesis using s by blast
qed

theorem result_shape_witness:
  "get_stock_price (demo_cfg None) [] (PyStr ''hpg'') =
     (Inr [(''error'', PyStr ''No data available for hpg. Last error: timed out''),
           (''symbol'', PyStr ''HPG'')],
      [(''HPG'', ''TCBS''), (''HPG'', ''VND''), (''HPG'', ''MSN''), (''HPG'', ''VCI'')]) \<and>
   has_key ''error'' [(''error'', PyStr ''No data available for hpg. Last error: timed out''),
                      (''symbol'', PyStr ''HPG'') :: string \<times> real py] \<and>
   get_stock (demo_cfg None) (demo_request None PyNone) [] ''hpg'' =
     (Inr (PyDict [(''error'', PyStr ''No data available for hpg. Last error: timed out''),
                   (''symbol'', PyStr ''HPG'')], 404),
      [(''HPG'', ''TCBS''), (''HPG'', ''VND''), (''HPG'', ''MSN''), (''HPG'', ''VCI'')]) \<and>
   get_stock (demo_cfg None) (demo_request None PyNone) [] ''vnm'' =
     (Inr (PyDict [(''symbol'', PyStr ''VNM''), (''price'', PyFloat 67),
                   (''date'', PyStr ''2024-05-03''), (''source'', PyStr ''vnstock3-api''),
                   (''open'', PyFloat 66), (''high'', PyFloat 68), (''low'', PyNone),
                   (''volume'', PyInt 1200)], 200),
      [(''VNM'', ''TCBS''), (''VNM'', ''VND'')])"
proof -
  have v: "verify_api_key (demo_cfg None) (demo_request None PyNone)"
    by (simp add: verify_api_key_def demo_cfg_def)
  have h: "get_stock_price (demo_cfg None) [] (PyStr ''hpg'' :: real py) =
     (Inr [(''error'', PyStr ''No data available for hpg. Last error: timed out''),
           (''symbol'', PyStr ''HPG'')],
      [(''HPG'', ''TCBS''), (''HPG'', ''VND''), (''HPG'', ''MSN''), (''HPG'', ''VCI'')])"
    using demo_fetch_hpg [of None "[]"] by simp
  have q: "get_stock_price (demo_cfg None) [] (PyStr ''vnm'' :: real py) =
     (Inr [(''symbol'', PyStr ''VNM''), (''price'', PyFloat 67), (''date'', PyStr ''2024-05-03''),
           (''source'', PyStr ''vnstock3-api''), (''open'', PyFloat 66), (''high'', PyFloat 68),
           (''low'', PyNone), (''volume'', PyInt 1200)],
      [(''VNM'', ''TCBS''), (''VNM'', ''VND'')])"
    using demo_fetch_vnm [of None "[]"] by simp
  from result_shape [OF h] v q result_shape [OF q] h show ?thesis
    by auto
qed

section \<open>Properties of the routes\<close>

text \<open>
  C6. With no shared secret configured, or an empty one, every request passes the
  gate. With a non-empty secret a request passes exactly when its \<^verbatim>\<open>X-API-Key\<close> header
  is that very string. A request that does not pass gets, on both data routes, status
  401 with the body \<^verbatim>\<open>{"error": "Unauthorized"}\<close> and nothing is fetched; one that passes
  never gets 401.
\<close>

theorem auth_gate:
  "(API_KEY cfg = None \<or> API_KEY cfg = Some [] \<longrightarrow> verify_api_key cfg req) \<and>
   (\<forall>key. API_KEY cfg = Some key \<and> key \<noteq> [] \<longrightarrow>
      (verify_api_key cfg req \<longleftrightarrow> headers req ''X-API-Key'' = Some key)) \<and>
   (\<not> verify_api_key cfg req \<longrightarrow>
      get_stock cfg req w symbol = (Inr (PyDict [(''error'', PyStr ''Unauthorized'')], 401), w) \<and>
      get_stocks_batch cfg req w = (Inr (PyDict [(''error'', PyStr ''Unauthorized'')], 401), w)) \<and>
   (verify_api_key cfg req \<longrightarrow>
      (\<forall>body. fst (get_stock cfg req w symbol) \<noteq> Inr (body, 401)) \<and>
      (\<forall>body. fst (get_stocks_batch cfg req w) \<noteq> Inr (body, 401)))"
proof (intro conjI impI allI)
  assume "API_KEY cfg = None \<or> API_KEY cfg = Some []"
  then show "verify_api_key cfg req" by (auto simp: verify_api_key_def)
next
  fix key assume "API_KEY cfg = Some key \<and> key \<noteq> []"
  then show "verify_api_key cfg req \<longleftrightarrow> headers req ''X-API-Key'' = Some key"
    by (simp add: verify_api_key_def)
next
  assume "\<not> verify_api_key cfg req"
  then show "get_stock cfg req w symbol = (Inr (PyDict [(''error'', PyStr ''Unauthorized'')], 401), w)"
    by (simp add: get_stock_def)
next
  assume "\<not> verify_api_key cfg req"
  then show "get_stocks_batch cfg req w = (Inr (PyDict [(''error'', PyStr ''Unauthorized'')], 401), w)"
    by (simp add: get_stocks_batch_def)
next
  fix body assume "verify_api_key cfg req"
  then show "fst (get_stock cfg req w symbol) \<noteq> Inr (body, 401)"
    by (auto simp: get_stock_def split: prod.splits sum.splits)
next
  fix body assume "verify_api_key cfg req"
  then show "fst (get_stocks_batch cfg req w) \<noteq> Inr (body, 401)"
    by (auto simp: get_stocks_batch_def split: prod.splits sum.splits)
qed

theorem auth_gate_witness:
  "verify_api_key (demo_cfg None) (demo_request None PyNone) \<and>
   verify_api_key (demo_cfg None) (demo_request (Some ''secret'') PyNone) \<and>
   verify_api_key (demo_cfg (Some [])) (demo_request None PyNone) \<and>
   verify_api_key (demo_cfg (Some ''secret'')) (demo_request (Some ''secret'') PyNone) \<and>
   get_stock (demo_cfg (Some ''secret'')) (demo_request (Some ''Secret'') PyNone) [] ''vnm'' =
     (Inr (PyDict [(''error'', PyStr ''Unauthorized'')], 401), []) \<and>
   get_stocks_batch (demo_cfg (Some ''secret'')) (demo_request None PyNone) [] =
     (Inr (PyDict [(''error'', PyStr ''Unauthorized'')], 401), []) \<and>
   fst (get_stock (demo_cfg (Some ''secret'')) (demo_request (Some ''secret'') PyNone) [] ''hpg'') =
     Inr (PyDict [(''error'', PyStr ''No data available for hpg. Last error: timed out''),
                  (''symbol'', PyStr ''HPG'')], 404)"
proof -
  have k0: "API_KEY (demo_cfg None) = None" and k1: "API_KEY (demo_cfg (Some [])) = Some []"
    and k2: "API_KEY (demo_cfg (Some ''secret'')) = Some ''secret'' \<and> ''secret'' \<noteq> []"
    by (simp_all add: demo_cfg_def)
  have a: "verify_api_key (demo_cfg None) (demo_request None PyNone)"
    and b: "verify_api_key (demo_cfg None) (demo_request (Some ''secret'') PyNone)"
    using k0 auth_gate [of "demo_cfg None"] by blast+
  have c: "verify_api_key (demo_cfg (Some [])) (demo_request None PyNone)"
    using k1 auth_gate [of "demo_cfg (Some [])"] by blast
  have d: "verify_api_key (demo_cfg (Some ''secret'')) (demo_request (Some ''secret'') PyNone)"
    using k2 auth_gate [of "demo_cfg (Some ''secret'')" "demo_request (Some ''secret'') PyNone"]
    by (simp add: demo_request_def)
  have e: "\<not> verify_api_key (demo_cfg (Some ''secret'')) (demo_request (Some ''Secret'') PyNone)"
    using k2 auth_gate [of "demo_cfg (Some ''secret'')" "demo_request (Some ''Secret'') PyNone"]
    by (simp add: demo_request_def)
  have f: "\<not> verify_api_key (demo_cfg (Some ''secret'')) (demo_request None PyNone)"
    using k2 auth_gate [of "demo_cfg (Some ''secret'')" "demo_request None PyNone"]
    by (simp add: demo_request_def)
  have g: "get_stock (demo_cfg (Some ''secret'')) (demo_request (Some ''Secret'') PyNone) [] ''vnm'' =
     (Inr (PyDict [(''error'', PyStr ''Unauthorized'')], 401), [])"
    using e auth_gate [of "demo_cfg (Some ''secret'')" "demo_request (Some ''Secret'') PyNone" "[]" "''vnm''"]
    by blast
  have h: "get_stocks_batch (demo_cfg (Some ''secret'')) (demo_request None PyNone) [] =
     (Inr (PyDict [(''error'', PyStr ''Unauthorized'')], 401), [])"
    using f auth_gate [of "demo_cfg (Some ''secret'')" "demo_request None PyNone" "[]"]
    by blast
  have i: "fst (get_stock (demo_cfg (Some ''secret'')) (demo_request (Some ''secret'') PyNone) [] ''hpg'') =
     Inr (PyDict [(''error'', PyStr ''No data available for hpg. Last error: timed out''),
                  (''symbol'', PyStr ''HPG'')], 404)"
    using d
    by (simp add: get_stock_def get_stock_price_handler fetch_body_def demo_cfg_def sources_def
          init_locals_def upper_hpg query_def demo_vn_def no_data_record_str
          no_data_message_def has_key_def)
  from a b c d g h i show ?thesis by simp
qed

text \<open>
  The check of line 100. For an authorized POST whose body is a JSON object in which
  \<^verbatim>\<open>symbols\<close> is missing, is falsy (the empty list, \<^verbatim>\<open>null\<close>, the empty string, zero,
  \<^verbatim>\<open>false\<close>, the empty object) or is not a list, the response is status 400 with the
  error \<^verbatim>\<open>symbols must be a non-empty array\<close>, and nothing is fetched.
\<close>

lemma batch_rejects_bad_symbols:
  assumes "verify_api_key cfg req"
    and "json req = PyDict kvs"
    and "map_of kvs ''symbols'' = None \<or>
         (\<exists>v. map_of kvs ''symbols'' = Some v \<and> (\<not> truthy v \<or> (\<forall>xs. v \<noteq> PyList xs)))"
  shows "get_stocks_batch cfg req w =
     (Inr (PyDict [(''error'', PyStr ''symbols must be a non-empty array'')], 400), w)"
  using assms by (auto simp: get_stocks_batch_def isinstance_list_iff)

lemma batch_rejects_bad_symbols_examples:
  "get_stocks_batch (demo_cfg None) (demo_request None (PyDict [])) [] =
     (Inr (PyDict [(''error'', PyStr ''symbols must be a non-empty array'')], 400), []) \<and>
   get_stocks_batch (demo_cfg None) (demo_request None (PyDict [(''symbols'', PyList [])])) [] =
     (Inr (PyDict [(''error'', PyStr ''symbols must be a non-empty array'')], 400), []) \<and>
   get_stocks_batch (demo_cfg None) (demo_request None (PyDict [(''symbols'', PyStr ''ABC'')])) [] =
     (Inr (PyDict [(''error'', PyStr ''symbols must be a non-empty array'')], 400), [])"
proof -
  have v: "verify_api_key (demo_cfg None) (demo_request None body)" for body
    by (simp add: verify_api_key_def demo_cfg_def)
  have j: "json (demo_request None body) = body" for body
    by (simp add: demo_request_def)
  have a: "map_of ([] :: (string \<times> real py) list) ''symbols'' = None \<or>
         (\<exists>v. map_of ([] :: (string \<times> real py) list) ''symbols'' = Some v \<and>
              (\<not> truthy v \<or> (\<forall>xs. v \<noteq> PyList xs)))"
    by simp
  have b: "map_of [(''symbols'', PyList [] :: real py)] ''symbols'' = None \<or>
         (\<exists>v. map_of [(''symbols'', PyList [] :: real py)] ''symbols'' = Some v \<and>
              (\<not> truthy v \<or> (\<forall>xs. v \<noteq> PyList xs)))"
    by simp
  have c: "map_of [(''symbols'', PyStr ''ABC'' :: real py)] ''symbols'' = None \<or>
         (\<exists>v. map_of [(''symbols'', PyStr ''ABC'' :: real py)] ''symbols'' = Some v \<and>
              (\<not> truthy v \<or> (\<forall>xs. v \<noteq> PyList xs)))"
    by simp
  show ?thesis
    using batch_rejects_bad_symbols [OF v j a, of "[]"]
      batch_rejects_bad_symbols [OF v j b, of "[]"]
      batch_rejects_bad_symbols [OF v j c, of "[]"]
    by simp
qed

text \<open>
  The check does not look at the items. When the first item of the list is not a
  string, its fetch raises \<^verbatim>\<open>AttributeError\<close> out of \<^verbatim>\<open>get_stock_price\<close> and so out of
  the handler, which has no \<^verbatim>\<open>try\<close> of its own.
\<close>

lemma batch_first_item_not_str:
  assumes "verify_api_key cfg req"
    and "json req = PyDict kvs"
    and "map_of kvs ''symbols'' = Some (PyList (v # rest))"
    and "\<forall>s. v \<noteq> PyStr s"
  shows "get_stocks_batch cfg req w = (Inl (no_attribute v ''upper''), w)"
  using assms by (simp add: get_stocks_batch_def get_stock_price_not_str)

text \<open>
  C7. The claim asks for status 400 and no fetch whenever \<^verbatim>\<open>symbols\<close> is not a sequence
  of strings. The handler does otherwise on a non-empty list that holds an item which
  is not a string: for the body \<^verbatim>\<open>{"symbols": [1]}\<close> of an authorized request it returns
  no response at all, the \<^verbatim>\<open>AttributeError\<close> of \<^verbatim>\<open>symbol.upper()\<close> leaves it; and for
  \<^verbatim>\<open>{"symbols": ["vnm", 1]}\<close> the first symbol has been fetched from two sources before
  the same exception leaves it.
\<close>

theorem batch_non_string_items_raise:
  "verify_api_key (demo_cfg None)
     (demo_request None (PyDict [(''symbols'', PyList [PyInt 1])])) \<and>
   get_stocks_batch (demo_cfg None)
     (demo_request None (PyDict [(''symbols'', PyList [PyInt 1])])) [] =
     (Inl (AttributeError (quoted ''int'' @ '' object has no attribute '' @ quoted ''upper'')), []) \<and>
   get_stocks_batch (demo_cfg None)
     (demo_request None (PyDict [(''symbols'', PyList [PyStr ''vnm'', PyInt 1])])) [] =
     (Inl (AttributeError (quoted ''int'' @ '' object has no attribute '' @ quoted ''upper'')),
      [(''VNM'', ''TCBS''), (''VNM'', ''VND'')])"
proof -
  have "get_stock_price (demo_cfg None) w (PyInt 1 :: real py) =
          (Inl (no_attribute (PyInt 1 :: real py) ''upper''), w)" for w
    by (rule get_stock_price_not_str) simp
  then show ?thesis
    by (simp add: get_stocks_batch_def verify_api_key_def demo_cfg_def demo_request_def
          no_attribute_def demo_fetch_vnm [unfolded demo_cfg_def])
qed

text \<open>So the answer to \<^verbatim>\<open>{"symbols": [1]}\<close> is not the 400 response the claim asks for.\<close>

theorem batch_non_string_items_raise_witness:
  "get_stocks_batch (demo_cfg None)
     (demo_request None (PyDict [(''symbols'', PyList [PyInt 1])])) [] \<noteq>
     (Inr (PyDict [(''error'', PyStr ''symbols must be a non-empty array'')], 400), [])"
  using batch_non_string_items_raise by simp

text \<open>
  C8. For an authorized batch request whose \<^verbatim>\<open>symbols\<close> is a non-empty list of \<open>N\<close>
  strings the response is status 200 with \<^verbatim>\<open>count\<close> equal to \<open>N\<close> and \<open>N\<close> results; the
  \<open>i\<close>-th result is the record the fetch returns for the \<open>i\<close>-th symbol in the world the
  fetches before it left, whether it is a quote or an error record.
\<close>

theorem batch_results_in_order:
  assumes "verify_api_key cfg req"
    and "json req = PyDict kvs"
    and "map_of kvs ''symbols'' = Some (PyList (map PyStr ss))"
    and "ss \<noteq> []"
  shows "\<exists>rs. get_stocks_batch cfg req w =
           (Inr (PyDict [(''results'', PyList rs), (''count'', PyInt (int (length ss)))], 200),
            world_before cfg (map PyStr ss) w (length ss))
       \<and> length rs = length ss
       \<and> (\<forall>i < length ss. \<exists>d.
            fst (get_stock_price cfg (world_before cfg (map PyStr ss) w i) (PyStr (ss ! i))) = Inr d
            \<and> rs ! i = PyDict d)"
proof -
  from fetch_each_strings [of cfg ss "[]" w] obtain rs where
    rs: "fetch_each cfg (map PyStr ss) [] w =
           (Inr rs, world_before cfg (map PyStr ss) w (length ss))"
      "length rs = length ss"
      "\<forall>i < length ss. \<exists>d.
            fst (get_stock_price cfg (world_before cfg (map PyStr ss) w i) (PyStr (ss ! i))) = Inr d
            \<and> rs ! i = PyDict d"
    by auto
  have "get_stocks_batch cfg req w =
           (Inr (PyDict [(''results'', PyList rs), (''count'', PyInt (int (length ss)))], 200),
            world_before cfg (map PyStr ss) w (length ss))"
    using assms rs(1,2) by (simp add: get_stocks_batch_def)
  with rs(2,3) show ?thesis by blast
qed

theorem batch_results_in_order_witness:
  "verify_api_key (demo_cfg None)
     (demo_request None (PyDict [(''symbols'', PyList [PyStr ''hpg'', PyStr ''vnm''])])) \<and>
   get_stocks_batch (demo_cfg None)
     (demo_request None (PyDict [(''symbols'', PyList [PyStr ''hpg'', PyStr ''vnm''])])) [] =
     (Inr (PyDict
        [(''results'', PyList
           [PyDict [(''error'', PyStr ''No data available for hpg. Last error: timed out''),
                    (''symbol'', PyStr ''HPG'')],
            PyDict [(''symbol'', PyStr ''VNM''), (''price'', PyFloat 67),
                    (''date'', PyStr ''2024-05-03''), (''source'', PyStr ''vnstock3-api''),
                    (''open'', PyFloat 66), (''high'', PyFloat 68), (''low'', PyNone),
                    (''volume'', PyInt 1200)]]),
         (''count'', PyInt 2)], 200),
      [(''HPG'', ''TCBS''), (''HPG'', ''VND''), (''HPG'', ''MSN''), (''HPG'', ''VCI''),
       (''VNM'', ''TCBS''), (''VNM'', ''VND'')])"
proof -
  let ?req = "demo_request None (PyDict [(''symbols'', PyList [PyStr ''hpg'', PyStr ''vnm''])])"
  have v: "verify_api_key (demo_cfg None) ?req"
    by (simp add: verify_api_key_def demo_cfg_def)
  have j: "json ?req = PyDict [(''symbols'', PyList [PyStr ''hpg'', PyStr ''vnm''])]"
    by (simp add: demo_request_def)
  have m: "map_of [(''symbols'', PyList [PyStr ''hpg'', PyStr ''vnm''] :: real py)] ''symbols'' =
      Some (PyList (map PyStr [''hpg'', ''vnm'']))"
    by simp
  have n: "[''hpg'', ''vnm''] \<noteq> []" by simp
  have w1: "world_before (demo_cfg None) (map PyStr [''hpg'', ''vnm'']) [] (Suc 0) =
      [(''HPG'', ''TCBS''), (''HPG'', ''VND''), (''HPG'', ''MSN''), (''HPG'', ''VCI'')]"
    by (simp add: world_before_def demo_fetch_hpg)
  have w2: "world_before (demo_cfg None) (map PyStr [''hpg'', ''vnm'']) [] (Suc (Suc 0)) =
      [(''HPG'', ''TCBS''), (''HPG'', ''VND''), (''HPG'', ''MSN''), (''HPG'', ''VCI''),
       (''VNM'', ''TCBS''), (''VNM'', ''VND'')]"
    by (simp add: world_before_def demo_fetch_hpg demo_fetch_vnm)
  from batch_results_in_order [OF v j m n, of "[]"] obtain rs where
    rs: "get_stocks_batch (demo_cfg None) ?req [] =
           (Inr (PyDict [(''results'', PyList rs), (''count'', PyInt 2)], 200),
            world_before (demo_cfg None) (map PyStr [''hpg'', ''vnm'']) [] (Suc (Suc 0)))"
      "length rs = 2"
      "\<forall>i < 2. \<exists>d.
            fst (get_stock_price (demo_cfg None)
                   (world_before (demo_cfg None) (map PyStr [''hpg'', ''vnm'']) [] i)
                   (PyStr ([''hpg'', ''vnm''] ! i))) = Inr d
            \<and> rs ! i = PyDict d"
    by (auto simp: numeral_2_eq_2)
  from rs(3) have r0: "rs ! 0 =
      PyDict [(''error'', PyStr ''No data available for hpg. Last error: timed out''),
              (''symbol'', PyStr ''HPG'')]"
    by (auto simp: world_before_0 demo_fetch_hpg dest: spec [of _ 0])
  from rs(3) have r1: "rs ! 1 =
      PyDict [(''symbol'', PyStr ''VNM''), (''price'', PyFloat 67),
              (''date'', PyStr ''2024-05-03''), (''source'', PyStr ''vnstock3-api''),
              (''open'', PyFloat 66), (''high'', PyFloat 68), (''low'', PyNone),
              (''volume'', PyInt 1200)]"
    by (auto simp: w1 demo_fetch_vnm dest: spec [of _ 1])
  from rs(2) have "rs = [rs ! 0, rs ! 1]"
    by (cases rs; cases "tl rs"; cases "tl (tl rs)") auto
  with r0 r1 have "rs = [PyDict [(''error'', PyStr ''No data available for hpg. Last error: timed out''),
              (''symbol'', PyStr ''HPG'')], PyDict [(''symbol'', PyStr ''VNM''), (''price'', PyFloat 67),
              (''date'', PyStr ''2024-05-03''), (''source'', PyStr ''vnstock3-api''),
              (''open'', PyFloat 66), (''high'', PyFloat 68), (''low'', PyNone),
              (''volume'', PyInt 1200)]]"
    by simp
  with rs(1) v w2 show ?thesis by simp
qed

text \<open>
  C10. For an authorized POST whose parsed body is not an object, \<^verbatim>\<open>data.get\<close> raises
  \<^verbatim>\<open>AttributeError\<close> out of the handler and nothing is fetched; the handler answers 400
  only when the parsed body is an object.
\<close>

theorem batch_body_not_object:
  "(verify_api_key cfg req \<longrightarrow> (\<forall>kvs. json req \<noteq> PyDict kvs) \<longrightarrow>
      get_stocks_batch cfg req w = (Inl (no_attribute (json req) ''get''), w)) \<and>
   (\<forall>body w'. get_stocks_batch cfg req w = (Inr (body, 400), w') \<longrightarrow>
      (\<exists>kvs. json req = PyDict kvs))"
proof (intro conjI impI allI)
  assume "verify_api_key cfg req" "\<forall>kvs. json req \<noteq> PyDict kvs"
  then show "get_stocks_batch cfg req w = (Inl (no_attribute (json req) ''get''), w)"
    by (cases "json req") (simp_all add: get_stocks_batch_def)
next
  fix body w'
  assume "get_stocks_batch cfg req w = (Inr (body, 400), w')"
  then show "\<exists>kvs. json req = PyDict kvs"
    by (cases "json req") (simp_all add: get_stocks_batch_def split: if_splits)
qed

theorem batch_body_not_object_witness:
  "verify_api_key (demo_cfg None) (demo_request None PyNone) \<and>
   get_stocks_batch (demo_cfg None) (demo_request None PyNone) [] =
     (Inl (AttributeError (quoted ''NoneType'' @ '' object has no attribute '' @ quoted ''get'')), []) \<and>
   get_stocks_batch (demo_cfg None) (demo_request None (PyList [PyStr ''VNM''])) [] =
     (Inl (AttributeError (quoted ''list'' @ '' object has no attribute '' @ quoted ''get'')), []) \<and>
   get_stocks_batch (demo_cfg None) (demo_request None (PyDict [])) [] =
     (Inr (PyDict [(''error'', PyStr ''symbols must be a non-empty array'')], 400), []) \<and>
   (\<exists>kvs. json (demo_request None (PyDict [])) = PyDict kvs)"
proof -
  have v: "verify_api_key (demo_cfg None) (demo_request None body)" for body
    by (simp add: verify_api_key_def demo_cfg_def)
  have j: "json (demo_request None body) = body" for body
    by (simp add: demo_request_def)
  have a: "get_stocks_batch (demo_cfg None) (demo_request None PyNone) [] =
     (Inl (no_attribute (PyNone :: real py) ''get''), [])"
    using v batch_body_not_object [of "demo_cfg None" "demo_request None PyNone" "[]"]
    by (simp add: j)
  have b: "get_stocks_batch (demo_cfg None) (demo_request None (PyList [PyStr ''VNM''])) [] =
     (Inl (no_attribute (PyList [PyStr ''VNM''] :: real py) ''get''), [])"
    using v batch_body_not_object [of "demo_cfg None" "demo_request None (PyList [PyStr ''VNM''])" "[]"]
    by (simp add: j)
  have c: "get_stocks_batch (demo_cfg None) (demo_request None (PyDict [])) [] =
     (Inr (PyDict [(''error'', PyStr ''symbols must be a non-empty array'')], 400), [])"
    by (simp add: get_stocks_batch_def v j)
  have d: "\<exists>kvs. json (demo_request None (PyDict [])) = PyDict kvs"
    using c batch_body_not_object [of "demo_cfg None" "demo_request None (PyDict [])" "[]"]
    by blast
  from v a b c d show ?thesis by (simp add: no_attribute_def)
qed

end
